theory Spec2Isabelle
  imports Complex_Main "HOL-Library.Word" "HOL-Library.Char_ord" "HOL-Library.List_Lexorder"
    "HOL-Library.Sublist"
begin

section \<open>Spatial query resolution and execution (internal/server/search.go)\<close>

text \<open>
  A shallow embedding of \<^verbatim>\<open>search.go\<close>. Conventions:
  \<^item> Go's \<^verbatim>\<open>float64\<close> is modelled by \<^typ>\<open>real\<close>: rounding, NaN and the infinities are
    outside the model.
  \<^item> Go's \<^verbatim>\<open>int\<close> is \<^typ>\<open>int\<close> where the code only compares it (tile coordinates) and
    a 64-bit word where it computes with it (the count of \<^verbatim>\<open>cmdSearch\<close>);
    \<^verbatim>\<open>uint64\<close> and \<^verbatim>\<open>uint8\<close> are words.
  \<^item> A Go function with several results returns a tuple; a nil \<^verbatim>\<open>error\<close> is \<^term>\<open>None\<close>.
  \<^item> Everything that \<^verbatim>\<open>search.go\<close> calls and that lives in another package or file is
    a field of the record \<open>env\<close> (the server and its collaborators), so every theorem
    holds for whatever these collaborators compute.
\<close>

subsection \<open>Geometry values\<close>

text \<open>\<^verbatim>\<open>geometry.Point\<close> and \<^verbatim>\<open>geometry.Rect\<close>: fields \<^verbatim>\<open>X\<close>, \<^verbatim>\<open>Y\<close> and \<^verbatim>\<open>Min\<close>, \<^verbatim>\<open>Max\<close>.\<close>

record point =
  ptX :: real
  ptY :: real

record rect =
  rMin :: point
  rMax :: point

text \<open>
  \<^verbatim>\<open>geojson.Object\<close>: the values \<^verbatim>\<open>search.go\<close> builds itself (\<^verbatim>\<open>NewPoint\<close>,
  \<^verbatim>\<open>NewCircle\<close> with centre, meters and steps, \<^verbatim>\<open>NewRect\<close>), and \<open>Geometry\<close> for any
  other object a collaborator hands back (parsed GeoJSON, a clipped or buffered object),
  identified by its text.
\<close>

datatype geo =
    NewPoint point
  | NewCircle point real nat
  | NewRect rect
  | Geometry string

text \<open>\<^verbatim>\<open>object.Object\<close>: a stored object, with its id and its geometry \<^verbatim>\<open>Geo()\<close>.\<close>

record object =
  ID :: string
  Geo :: geo

definition defaultCircleSteps :: nat where
  "defaultCircleSteps = 64"

subsection \<open>Search descriptors\<close>

text \<open>
  The filters of a command (\<^verbatim>\<open>WHERE\<close>, \<^verbatim>\<open>WHEREIN\<close>, \<^verbatim>\<open>WHEREEVAL\<close>): \<^verbatim>\<open>search.go\<close> only
  counts them and hands them on, so a filter is given by its text.
\<close>

datatype whereT = Where string
datatype whereinT = WhereIn string
datatype whereevalT = WhereEval string

text \<open>
  Modelled from the spec: the declarations of \<^verbatim>\<open>outputT\<close> and of
  \<^verbatim>\<open>searchScanBaseTokens\<close> are outside src/. The record has the fields that
  \<^verbatim>\<open>search.go\<close> reads and writes (the spec's baseTokens: key, output mode, precision,
  limit, cursor, sort direction, filters, field-projection flags, clip, fence, tile
  coordinates and the map-tile flag; the field \<^verbatim>\<open>output\<close> is \<open>output_mode\<close>);
  \<^verbatim>\<open>search.go\<close> names the output modes \<open>outputBounds\<close> and \<open>outputCount\<close>.
\<close>

datatype outputT =
    outputUnknown
  | outputIDs
  | outputObjects
  | outputCount
  | outputPoints
  | outputHashes
  | outputBounds

record searchScanBaseTokens =
  key :: string
  cursor :: "64 word"
  output_mode :: outputT
  precision :: "64 word"
  fence :: bool
  distance :: bool
  nofields :: bool
  desc :: bool
  limit :: "64 word"
  sparse :: "8 word"
  clip :: bool
  hasbuffer :: bool
  buffer :: real
  globs :: "string list"
  wheres :: "whereT list"
  whereins :: "whereinT list"
  whereevals :: "whereevalT list"
  mvt :: bool
  tileX :: int
  tileY :: int
  tileZ :: int

record roamSwitches =
  roam_on :: bool
  roam_key :: string
  roam_id :: string
  roam_pattern :: bool
  roam_meters :: real
  roam_scan :: string

text \<open>
  \<^verbatim>\<open>liveFenceSwitches\<close> embeds \<^verbatim>\<open>searchScanBaseTokens\<close>; \<^verbatim>\<open>lfs.clip\<close> of the source
  is \<open>clip (searchScanBaseTokens lfs)\<close> here. A nil \<^verbatim>\<open>obj\<close> is \<^term>\<open>None\<close>.
\<close>

record liveFenceSwitches =
  searchScanBaseTokens :: searchScanBaseTokens
  obj :: "geo option"
  cmd :: string
  roam :: roamSwitches

text \<open>The zero values of the three structs (\<^verbatim>\<open>var t searchScanBaseTokens\<close>).\<close>

definition zeroTokens :: searchScanBaseTokens where
  "zeroTokens = \<lparr>key = '''', cursor = 0, output_mode = outputUnknown, precision = 0,
     fence = False, distance = False, nofields = False, desc = False, limit = 0,
     sparse = 0, clip = False, hasbuffer = False, buffer = 0, globs = [], wheres = [],
     whereins = [], whereevals = [], mvt = False, tileX = 0, tileY = 0, tileZ = 0\<rparr>"

definition zeroRoam :: roamSwitches where
  "zeroRoam = \<lparr>roam_on = False, roam_key = '''', roam_id = '''', roam_pattern = False,
     roam_meters = 0, roam_scan = ''''\<rparr>"

definition zeroLfs :: liveFenceSwitches where
  "zeroLfs = \<lparr>searchScanBaseTokens = zeroTokens, obj = None, cmd = '''', roam = zeroRoam\<rparr>"

subsection \<open>Errors\<close>

text \<open>
  The error values \<^verbatim>\<open>search.go\<close> returns. \<open>errorString\<close> is \<^verbatim>\<open>errors.New\<close> and
  \<^verbatim>\<open>fmt.Errorf\<close>; \<open>goingLiveError\<close> is a \<^verbatim>\<open>liveFenceSwitches\<close> value returned as an
  error (the type has an \<^verbatim>\<open>Error\<close> method).
\<close>

datatype error =
    errNotRectangle
  | errInvalidNumberOfArguments
  | errInvalidArgument string
  | errKeyNotFound
  | errIDNotFound
  | errorString string
  | goingLiveError liveFenceSwitches

text \<open>
  Modelled from the spec: the constant \<^verbatim>\<open>goingLive\<close> is declared outside src/; it is the
  marker of the distinguished "going live" condition.
\<close>

definition goingLive :: string where
  "goingLive = ''going live''"

text \<open>\<^verbatim>\<open>func (lfs liveFenceSwitches) Error() string\<close>\<close>

definition Error :: "liveFenceSwitches \<Rightarrow> string" where
  "Error lfs = goingLive"

text \<open>\<^verbatim>\<open>func (lfs liveFenceSwitches) usingLua() bool\<close>\<close>

definition usingLua :: "liveFenceSwitches \<Rightarrow> bool" where
  "usingLua lfs = (length (whereevals (searchScanBaseTokens lfs)) > 0)"

subsection \<open>Collaborators\<close>

text \<open>
  Modelled from the spec: the collection and its index are external collaborators. A
  collection has an object count (a Go \<^verbatim>\<open>int\<close>, 64 bits) and an id lookup; each traversal
  primitive is given by the candidates it delivers, in order, to the iterator; the
  traversal stops as soon as the iterator returns false (spec, section 5). Deadlines are
  not modelled.
\<close>

record collection =
  Count :: "64 word"
  Get :: "string \<Rightarrow> object option"
  Nearby :: "geo option \<Rightarrow> (object \<times> real) list"
  Intersects :: "geo option \<Rightarrow> 8 word \<Rightarrow> object list"
  Within :: "geo option \<Rightarrow> 8 word \<Rightarrow> object list"
  SearchValues :: "bool \<Rightarrow> object list"
  SearchValuesRange :: "string \<Rightarrow> string \<Rightarrow> bool \<Rightarrow> object list"

text \<open>\<^verbatim>\<open>geohash.Box\<close>\<close>

record box =
  MinLat :: real
  MaxLat :: real
  MinLng :: real
  MaxLng :: real

text \<open>
  Modelled from the spec: \<^verbatim>\<open>Message\<close>, \<^verbatim>\<open>resp.Value\<close>, the scan writer (the streaming
  sink) and \<^verbatim>\<open>ScanWriterParams\<close> are declared outside src/. The records have the
  fields \<^verbatim>\<open>search.go\<close> uses (\<^verbatim>\<open>sw.col\<close> is \<open>sw_col\<close>, \<^verbatim>\<open>params.obj\<close> is \<open>p_obj\<close>,
  and so on). The buffer \<^verbatim>\<open>wr\<close>, which the command and its scan writer share through a
  pointer, is the field \<open>sw_wr\<close>; whatever else the sink keeps is \<open>sw_state\<close>.
\<close>

datatype outputType = JSON | RESP

record Message =
  Args :: "string list"
  OutputType :: outputType

datatype respValue =
    NOMessage
  | BytesValue string
  | OtherValue string

record scanWriter =
  sw_wr :: string
  sw_col :: "collection option"
  sw_output :: outputT
  sw_wheres :: "whereT list"
  sw_globs :: "string list"
  sw_globEverything :: bool
  sw_count :: "64 word"
  sw_respOut :: respValue
  sw_state :: "string list"

record ScanWriterParams =
  p_obj :: object
  p_dist :: real
  p_distOutput :: bool
  p_ignoreGlobMatch :: bool
  p_skipTesting :: bool
  p_clip :: "geo option"

text \<open>
  The server \<^verbatim>\<open>s\<close> and the functions of other packages and files that
  \<^verbatim>\<open>search.go\<close> calls. \<open>ParseFloat\<close> and \<open>Atoi\<close> are \<^verbatim>\<open>strconv\<close>'s (\<^term>\<open>None\<close> when
  they return an error); \<open>TileXYToBounds\<close> and \<open>QuadKeyToBounds\<close> return
  \<open>(minLat, minLon, maxLat, maxLon)\<close>; \<open>sectorJSON lon lat meters b1 b2\<close> is
  \<^verbatim>\<open>string(sectr.NewSector(origin, meters, b1, b2).JSON())\<close>; \<open>globParse pattern desc\<close>
  is \<^verbatim>\<open>glob.Parse(pattern, desc).Limits\<close>, the pair of \<^verbatim>\<open>Limits[0]\<close> and
  \<^verbatim>\<open>Limits[1]\<close>; \<open>newScanWriter\<close> takes the arguments of the source but \<^verbatim>\<open>wr\<close>;
  \<open>Distance g target\<close> is \<^verbatim>\<open>g.Distance(target)\<close>;
  \<open>elapsed\<close> is \<^verbatim>\<open>time.Since(start).String()\<close>. A panic raised inside a collaborator
  is outside the model.
\<close>

record env =
  parseSearchScanBaseTokens ::
    "string \<Rightarrow> searchScanBaseTokens \<Rightarrow> string list
      \<Rightarrow> string list \<times> searchScanBaseTokens \<times> error option"
  defaultSearchOutput :: outputT
  ParseFloat :: "string \<Rightarrow> real option"
  Atoi :: "string \<Rightarrow> int option"
  TileXYToBounds :: "int \<Rightarrow> int \<Rightarrow> int \<Rightarrow> real \<times> real \<times> real \<times> real"
  QuadKeyToBounds :: "string \<Rightarrow> (real \<times> real \<times> real \<times> real) option"
  BoundingBox :: "string \<Rightarrow> box"
  geojsonParse :: "string \<Rightarrow> geo option \<times> error option"
  sectorJSON :: "real \<Rightarrow> real \<Rightarrow> real \<Rightarrow> real \<Rightarrow> real \<Rightarrow> string"
  IsGlob :: "string \<Rightarrow> bool"
  cols :: "string \<Rightarrow> collection option"
  Clip :: "geo option \<Rightarrow> geo option \<Rightarrow> geo option"
  bufferSimple :: "geo option \<Rightarrow> real \<Rightarrow> geo option \<times> error option"
  Distance :: "geo \<Rightarrow> geo option \<Rightarrow> real"
  globParse :: "string \<Rightarrow> bool \<Rightarrow> string \<times> string"
  newScanWriter ::
    "Message \<Rightarrow> string \<Rightarrow> outputT \<Rightarrow> 64 word \<Rightarrow> string list \<Rightarrow> bool
      \<Rightarrow> 64 word \<Rightarrow> 64 word \<Rightarrow> whereT list \<Rightarrow> whereinT list \<Rightarrow> whereevalT list
      \<Rightarrow> bool \<Rightarrow> bool \<Rightarrow> int \<Rightarrow> int \<Rightarrow> int \<Rightarrow> scanWriter \<times> error option"
  pushObject :: "scanWriter \<Rightarrow> ScanWriterParams \<Rightarrow> scanWriter \<times> bool \<times> error option"
  writeFoot :: "scanWriter \<Rightarrow> scanWriter"
  retrerr :: "error \<Rightarrow> respValue \<times> error option"
  elapsed :: string

text \<open>
  Modelled from the spec: the constants of package \<^verbatim>\<open>bing\<close> are outside src/; the spec
  gives the latitude range [-85.05112878, 85.05112878] and the longitude range
  [-180, 180].
\<close>

definition MinLatitude :: real where "MinLatitude = - 85.05112878"
definition MaxLatitude :: real where "MaxLatitude = 85.05112878"
definition MinLongitude :: real where "MinLongitude = - 180"
definition MaxLongitude :: real where "MaxLongitude = 180"

subsection \<open>Tokens\<close>

text \<open>
  Modelled from the spec: \<^verbatim>\<open>tokenval\<close> is declared outside src/; it is the cursor step
  of section 9, "consume tokens, return remaining tokens": the next token and the rest,
  and \<open>ok = False\<close> when no token is left.
\<close>

fun tokenval :: "string list \<Rightarrow> string list \<times> string \<times> bool" where
  "tokenval [] = ([], '''', False)"
| "tokenval (v # vs) = (vs, v, True)"

text \<open>\<^verbatim>\<open>strings.ToLower\<close> on ASCII; bytes outside A-Z are left as they are.\<close>

definition toLowerChar :: "char \<Rightarrow> char" where
  "toLowerChar c =
     (case map_of (zip ''ABCDEFGHIJKLMNOPQRSTUVWXYZ'' ''abcdefghijklmnopqrstuvwxyz'') c of
        Some d \<Rightarrow> d
      | None \<Rightarrow> c)"

definition ToLower :: "string \<Rightarrow> string" where
  "ToLower s = map toLowerChar s"

subsection \<open>parseRectArea\<close>

text \<open>
  Lines 175-194: the expansion of an \<^verbatim>\<open>mvt\<close> rectangle, statement by statement. Each
  assignment reads the rectangle as the assignments before it left it.
\<close>

definition expandMvt :: "rect \<Rightarrow> rect" where
  "expandMvt r0 =
     (let r1 = r0\<lparr>rMin := (rMin r0)\<lparr>ptY := ptY (rMin r0) - (ptY (rMax r0) - ptY (rMin r0)) * 0.1\<rparr>\<rparr>;
          r2 = r1\<lparr>rMax := (rMax r1)\<lparr>ptY := ptY (rMax r1) + (ptY (rMax r1) - ptY (rMin r1)) * 0.1\<rparr>\<rparr>;
          r3 = r2\<lparr>rMin := (rMin r2)\<lparr>ptX := ptX (rMin r2) - (ptX (rMax r2) - ptX (rMin r2)) * 0.1\<rparr>\<rparr>;
          r4 = r3\<lparr>rMax := (rMax r3)\<lparr>ptX := ptX (rMax r3) + (ptX (rMax r3) - ptX (rMin r3)) * 0.1\<rparr>\<rparr>;
          r5 = (if ptY (rMin r4) < MinLatitude then r4\<lparr>rMin := (rMin r4)\<lparr>ptY := MinLatitude\<rparr>\<rparr> else r4);
          r6 = (if ptY (rMax r5) > MaxLatitude then r5\<lparr>rMax := (rMax r5)\<lparr>ptY := MaxLatitude\<rparr>\<rparr> else r5);
          r7 = (if ptX (rMin r6) < MinLongitude then r6\<lparr>rMin := (rMin r6)\<lparr>ptX := MinLongitude\<rparr>\<rparr> else r6);
          r8 = (if ptX (rMax r7) > MaxLongitude then r7\<lparr>rMax := (rMax r7)\<lparr>ptX := MaxLongitude\<rparr>\<rparr> else r7)
      in r8)"

text \<open>
  The results of \<^verbatim>\<open>parseRectArea\<close> are
  \<open>(nvs, grect, tileX, tileY, tileZ, err)\<close>. \<open>rectErr\<close> is a \<^verbatim>\<open>return\<close> after
  \<^verbatim>\<open>err = ...\<close>: the other named results still hold their zero values. \<open>rectDone\<close> is
  the code after the switch (lines 174-196).
\<close>

type_synonym rectResult = "string list \<times> geo option \<times> int \<times> int \<times> int \<times> error option"

definition rectErr :: "error \<Rightarrow> rectResult" where
  "rectErr er = ([], None, 0, 0, 0, Some er)"

definition rectDone :: "string \<Rightarrow> string list \<Rightarrow> rect \<Rightarrow> int \<Rightarrow> int \<Rightarrow> int \<Rightarrow> rectResult" where
  "rectDone ltyp vs r x y z =
     (vs, Some (NewRect (if ltyp = ''mvt'' then expandMvt r else r)), x, y, z, None)"

definition mkRect :: "real \<Rightarrow> real \<Rightarrow> real \<Rightarrow> real \<Rightarrow> rect" where
  "mkRect minLat minLon maxLat maxLon =
     \<lparr>rMin = \<lparr>ptX = minLon, ptY = minLat\<rparr>, rMax = \<lparr>ptX = maxLon, ptY = maxLat\<rparr>\<rparr>"

definition rectBounds :: "env \<Rightarrow> string \<Rightarrow> string list \<Rightarrow> rectResult" where
  "rectBounds e ltyp vs0 =
     (case tokenval vs0 of (vs1, sminLat, ok1) \<Rightarrow>
       if \<not> ok1 \<or> sminLat = [] then rectErr errInvalidNumberOfArguments else
      (case tokenval vs1 of (vs2, sminLon, ok2) \<Rightarrow>
       if \<not> ok2 \<or> sminLon = [] then rectErr errInvalidNumberOfArguments else
      (case tokenval vs2 of (vs3, smaxlat, ok3) \<Rightarrow>
       if \<not> ok3 \<or> smaxlat = [] then rectErr errInvalidNumberOfArguments else
      (case tokenval vs3 of (vs4, smaxlon, ok4) \<Rightarrow>
       if \<not> ok4 \<or> smaxlon = [] then rectErr errInvalidNumberOfArguments else
      (case ParseFloat e sminLat of None \<Rightarrow> rectErr (errInvalidArgument sminLat) | Some minLat \<Rightarrow>
      (case ParseFloat e sminLon of None \<Rightarrow> rectErr (errInvalidArgument sminLon) | Some minLon \<Rightarrow>
      (case ParseFloat e smaxlat of None \<Rightarrow> rectErr (errInvalidArgument smaxlat) | Some maxLat \<Rightarrow>
      (case ParseFloat e smaxlon of None \<Rightarrow> rectErr (errInvalidArgument smaxlon) | Some maxLon \<Rightarrow>
       rectDone ltyp vs4 (mkRect minLat minLon maxLat maxLon) 0 0 0))))))))"

definition rectHash :: "env \<Rightarrow> string \<Rightarrow> string list \<Rightarrow> rectResult" where
  "rectHash e ltyp vs0 =
     (case tokenval vs0 of (vs1, hash, ok1) \<Rightarrow>
       if \<not> ok1 \<or> hash = [] then rectErr errInvalidNumberOfArguments else
      (let bx = BoundingBox e hash in
       rectDone ltyp vs1 (mkRect (MinLat bx) (MinLng bx) (MaxLat bx) (MaxLng bx)) 0 0 0))"

definition rectQuadkey :: "env \<Rightarrow> string \<Rightarrow> string list \<Rightarrow> rectResult" where
  "rectQuadkey e ltyp vs0 =
     (case tokenval vs0 of (vs1, qkey, ok1) \<Rightarrow>
       if \<not> ok1 \<or> qkey = [] then rectErr errInvalidNumberOfArguments else
      (case QuadKeyToBounds e qkey of None \<Rightarrow> rectErr (errInvalidArgument qkey) | Some (minLat, minLon, maxLat, maxLon) \<Rightarrow>
       rectDone ltyp vs1 (mkRect minLat minLon maxLat maxLon) 0 0 0))"

definition rectTile :: "env \<Rightarrow> string \<Rightarrow> string list \<Rightarrow> rectResult" where
  "rectTile e ltyp vs0 =
     (case tokenval vs0 of (vs1, sx, ok1) \<Rightarrow>
       if \<not> ok1 \<or> sx = [] then rectErr errInvalidNumberOfArguments else
      (case tokenval vs1 of (vs2, sy, ok2) \<Rightarrow>
       if \<not> ok2 \<or> sy = [] then rectErr errInvalidNumberOfArguments else
      (case tokenval vs2 of (vs3, sz, ok3) \<Rightarrow>
       if \<not> ok3 \<or> sz = [] then rectErr errInvalidNumberOfArguments else
      (case Atoi e sx of None \<Rightarrow> rectErr (errInvalidArgument sx) | Some x \<Rightarrow>
       if x < 0 then rectErr (errInvalidArgument sx) else
      (case Atoi e sy of None \<Rightarrow> rectErr (errInvalidArgument sy) | Some y \<Rightarrow>
       if y < 0 then rectErr (errInvalidArgument sy) else
      (case Atoi e sz of None \<Rightarrow> rectErr (errInvalidArgument sz) | Some z \<Rightarrow>
       if z < 0 \<or> z > 23 then rectErr (errInvalidArgument sz) else
      (case TileXYToBounds e x y z of (minLat, minLon, maxLat, maxLon) \<Rightarrow>
       rectDone ltyp vs3 (mkRect minLat minLon maxLat maxLon) x y z)))))))"

text \<open>\<^verbatim>\<open>func parseRectArea(ltyp string, vs []string)\<close>: the switch on \<^verbatim>\<open>ltyp\<close>.\<close>

definition parseRectArea :: "env \<Rightarrow> string \<Rightarrow> string list \<Rightarrow> rectResult" where
  "parseRectArea e ltyp vs =
     (if ltyp = ''bounds'' then rectBounds e ltyp vs
      else if ltyp = ''hash'' then rectHash e ltyp vs
      else if ltyp = ''quadkey'' then rectQuadkey e ltyp vs
      else if ltyp = ''tile'' \<or> ltyp = ''mvt'' then rectTile e ltyp vs
      else rectErr errNotRectangle)"

subsection \<open>cmdSearchArgs\<close>

text \<open>
  \<^verbatim>\<open>cmdSearchArgs\<close> has the named results \<^verbatim>\<open>(lfs, err)\<close>, and the variable \<^verbatim>\<open>vs\<close> of
  the tokens still to read. A piece of its body either returns (\<open>Return lfs err\<close>) or
  falls through to the next statement with the current \<^verbatim>\<open>vs\<close>, \<^verbatim>\<open>lfs\<close> and \<^verbatim>\<open>err\<close>
  (\<open>Continue vs lfs err\<close>).
\<close>

datatype flow =
    Return liveFenceSwitches "error option"
  | Continue "string list" liveFenceSwitches "error option"

definition setTokens :: "(searchScanBaseTokens \<Rightarrow> searchScanBaseTokens) \<Rightarrow> liveFenceSwitches \<Rightarrow> liveFenceSwitches" where
  "setTokens f lfs = lfs\<lparr>searchScanBaseTokens := f (searchScanBaseTokens lfs)\<rparr>"

definition setRoam :: "(roamSwitches \<Rightarrow> roamSwitches) \<Rightarrow> liveFenceSwitches \<Rightarrow> liveFenceSwitches" where
  "setRoam f lfs = lfs\<lparr>roam := f (roam lfs)\<rparr>"

text \<open>\<^verbatim>\<open>case "point"\<close> (lines 238-273)\<close>

definition casePoint :: "env \<Rightarrow> string \<Rightarrow> string list \<Rightarrow> liveFenceSwitches \<Rightarrow> flow" where
  "casePoint e command vs0 lfs =
     (case tokenval vs0 of (vs1, slat, ok1) \<Rightarrow>
       if \<not> ok1 \<or> slat = [] then Return lfs (Some errInvalidNumberOfArguments) else
      (case tokenval vs1 of (vs2, slon, ok2) \<Rightarrow>
       if \<not> ok2 \<or> slon = [] then Return lfs (Some errInvalidNumberOfArguments) else
      (case ParseFloat e slat of None \<Rightarrow> Return lfs (Some (errInvalidArgument slat)) | Some lat \<Rightarrow>
      (case ParseFloat e slon of None \<Rightarrow> Return lfs (Some (errInvalidArgument slon)) | Some lon \<Rightarrow>
       if command = ''nearby'' then
         (case tokenval vs2 of (vs3, smeters, ok3) \<Rightarrow>
          if ok3 \<and> smeters \<noteq> [] then
            (case ParseFloat e smeters of
               None \<Rightarrow> Return lfs (Some (errInvalidArgument smeters))
             | Some meters \<Rightarrow>
                 if meters < 0 then Return lfs (Some (errInvalidArgument smeters))
                 else Continue vs3 (lfs\<lparr>obj := Some (NewCircle \<lparr>ptX = lon, ptY = lat\<rparr> meters defaultCircleSteps)\<rparr>) None)
          else Continue vs3 (lfs\<lparr>obj := Some (NewCircle \<lparr>ptX = lon, ptY = lat\<rparr> (- 1) defaultCircleSteps)\<rparr>) None)
       else Continue vs2 (lfs\<lparr>obj := Some (NewPoint \<lparr>ptX = lon, ptY = lat\<rparr>)\<rparr>) None))))"

text \<open>\<^verbatim>\<open>case "circle"\<close> (lines 274-306)\<close>

definition caseCircle :: "env \<Rightarrow> string \<Rightarrow> string list \<Rightarrow> liveFenceSwitches \<Rightarrow> flow" where
  "caseCircle e ltyp vs0 lfs =
     (if clip (searchScanBaseTokens lfs)
       then Return lfs (Some (errInvalidArgument (''cannot clip with '' @ ltyp))) else
      (case tokenval vs0 of (vs1, slat, ok1) \<Rightarrow>
       if \<not> ok1 \<or> slat = [] then Return lfs (Some errInvalidNumberOfArguments) else
      (case tokenval vs1 of (vs2, slon, ok2) \<Rightarrow>
       if \<not> ok2 \<or> slon = [] then Return lfs (Some errInvalidNumberOfArguments) else
      (case ParseFloat e slat of None \<Rightarrow> Return lfs (Some (errInvalidArgument slat)) | Some lat \<Rightarrow>
      (case ParseFloat e slon of None \<Rightarrow> Return lfs (Some (errInvalidArgument slon)) | Some lon \<Rightarrow>
      (case tokenval vs2 of (vs3, smeters, ok3) \<Rightarrow>
       if \<not> ok3 \<or> smeters = [] then Return lfs (Some errInvalidNumberOfArguments) else
      (case ParseFloat e smeters of None \<Rightarrow> Return lfs (Some (errInvalidArgument smeters)) | Some meters \<Rightarrow>
       if meters < 0 then Return lfs (Some (errInvalidArgument smeters)) else
       Continue vs3 (lfs\<lparr>obj := Some (NewCircle \<lparr>ptX = lon, ptY = lat\<rparr> meters defaultCircleSteps)\<rparr>) None)))))))"

text \<open>\<^verbatim>\<open>case "object"\<close> (lines 307-320)\<close>

definition caseObject :: "env \<Rightarrow> string list \<Rightarrow> liveFenceSwitches \<Rightarrow> flow" where
  "caseObject e vs0 lfs =
     (if clip (searchScanBaseTokens lfs)
       then Return lfs (Some (errInvalidArgument ''cannot clip with object'')) else
      (case tokenval vs0 of (vs1, sobj, ok1) \<Rightarrow>
       if \<not> ok1 \<or> sobj = [] then Return lfs (Some errInvalidNumberOfArguments) else
      (case geojsonParse e sobj of (g, perr) \<Rightarrow>
       if perr \<noteq> None then Return (lfs\<lparr>obj := g\<rparr>) perr else
       Continue vs1 (lfs\<lparr>obj := g\<rparr>) None)))"

text \<open>\<^verbatim>\<open>case "sector"\<close> (lines 321-380)\<close>

definition caseSector :: "env \<Rightarrow> string \<Rightarrow> string list \<Rightarrow> liveFenceSwitches \<Rightarrow> flow" where
  "caseSector e ltyp vs0 lfs =
     (if clip (searchScanBaseTokens lfs)
       then Return lfs (Some (errInvalidArgument (''cannot clip with '' @ ltyp))) else
      (case tokenval vs0 of (vs1, slat, ok1) \<Rightarrow>
       if \<not> ok1 \<or> slat = [] then Return lfs (Some errInvalidNumberOfArguments) else
      (case tokenval vs1 of (vs2, slon, ok2) \<Rightarrow>
       if \<not> ok2 \<or> slon = [] then Return lfs (Some errInvalidNumberOfArguments) else
      (case tokenval vs2 of (vs3, smeters, ok3) \<Rightarrow>
       if \<not> ok3 \<or> smeters = [] then Return lfs (Some errInvalidNumberOfArguments) else
      (case tokenval vs3 of (vs4, sb1, ok4) \<Rightarrow>
       if \<not> ok4 \<or> sb1 = [] then Return lfs (Some errInvalidNumberOfArguments) else
      (case tokenval vs4 of (vs5, sb2, ok5) \<Rightarrow>
       if \<not> ok5 \<or> sb2 = [] then Return lfs (Some errInvalidNumberOfArguments) else
      (case ParseFloat e slat of None \<Rightarrow> Return lfs (Some (errInvalidArgument slat)) | Some lat \<Rightarrow>
      (case ParseFloat e slon of None \<Rightarrow> Return lfs (Some (errInvalidArgument slon)) | Some lon \<Rightarrow>
      (case ParseFloat e smeters of None \<Rightarrow> Return lfs (Some (errInvalidArgument smeters)) | Some meters \<Rightarrow>
      (case ParseFloat e sb1 of None \<Rightarrow> Return lfs (Some (errInvalidArgument sb1)) | Some b1 \<Rightarrow>
      (case ParseFloat e sb2 of None \<Rightarrow> Return lfs (Some (errInvalidArgument sb2)) | Some b2 \<Rightarrow>
       if b1 = b2
       then Return lfs (Some (errorString
              (''equal bearings ('' @ sb1 @ '' == '' @ sb2 @ ''), use CIRCLE instead''))) else
      (case geojsonParse e (sectorJSON e lon lat meters b1 b2) of (g, perr) \<Rightarrow>
       if perr \<noteq> None then Return (lfs\<lparr>obj := g\<rparr>) perr else
       Continue vs5 (lfs\<lparr>obj := g\<rparr>) None))))))))))))"

text \<open>\<^verbatim>\<open>case "bounds", "hash", "tile", "mvt", "quadkey"\<close> (lines 381-389)\<close>

definition caseRect :: "env \<Rightarrow> string \<Rightarrow> string list \<Rightarrow> liveFenceSwitches \<Rightarrow> flow" where
  "caseRect e ltyp vs0 lfs =
     (case parseRectArea e ltyp vs0 of (vs1, g, x, y, z, perr) \<Rightarrow>
      (let lfs1 = setTokens (\<lambda>t. t\<lparr>tileX := x, tileY := y, tileZ := z\<rparr>) (lfs\<lparr>obj := g\<rparr>) in
       if perr \<noteq> None then Return lfs1 perr else
       if ltyp = ''mvt'' then Continue vs1 (setTokens (\<lambda>t. t\<lparr>mvt := True\<rparr>) lfs1) None else
       Continue vs1 lfs1 None))"

text \<open>
  \<^verbatim>\<open>case "get"\<close> (lines 390-413). Lines 391-393 assign \<^verbatim>\<open>err\<close> and do not return:
  \<open>err0\<close> is the value \<^verbatim>\<open>err\<close> holds from there on.
\<close>

definition caseGet :: "env \<Rightarrow> string list \<Rightarrow> liveFenceSwitches \<Rightarrow> flow" where
  "caseGet e vs0 lfs =
     (let err0 = (if clip (searchScanBaseTokens lfs)
                   then Some (errInvalidArgument ''cannot clip with get'') else None) in
      (case tokenval vs0 of (vs1, skey, ok1) \<Rightarrow>
       if \<not> ok1 \<or> skey = [] then Return lfs (Some errInvalidNumberOfArguments) else
      (case tokenval vs1 of (vs2, sid, ok2) \<Rightarrow>
       if \<not> ok2 \<or> sid = [] then Return lfs (Some errInvalidNumberOfArguments) else
      (case cols e skey of None \<Rightarrow> Return lfs (Some errKeyNotFound) | Some col \<Rightarrow>
      (case Get col sid of None \<Rightarrow> Return lfs (Some errIDNotFound) | Some ob \<Rightarrow>
       Continue vs2 (lfs\<lparr>obj := Some (Geo ob)\<rparr>) err0)))))"

text \<open>\<^verbatim>\<open>case "roam"\<close> (lines 414-445)\<close>

definition caseRoam :: "env \<Rightarrow> string list \<Rightarrow> liveFenceSwitches \<Rightarrow> flow" where
  "caseRoam e vs0 lfs =
     (let l1 = setRoam (\<lambda>r. r\<lparr>roam_on := True\<rparr>) lfs in
      (case tokenval vs0 of (vs1, skey, ok1) \<Rightarrow>
      (let l2 = setRoam (\<lambda>r. r\<lparr>roam_key := skey\<rparr>) l1 in
       if \<not> ok1 \<or> skey = [] then Return l2 (Some errInvalidNumberOfArguments) else
      (case tokenval vs1 of (vs2, sid, ok2) \<Rightarrow>
      (let l3 = setRoam (\<lambda>r. r\<lparr>roam_id := sid\<rparr>) l2 in
       if \<not> ok2 \<or> sid = [] then Return l3 (Some errInvalidNumberOfArguments) else
      (let l4 = setRoam (\<lambda>r. r\<lparr>roam_pattern := IsGlob e sid\<rparr>) l3 in
      (case tokenval vs2 of (vs3, smeters, ok3) \<Rightarrow>
       if \<not> ok3 \<or> smeters = [] then Return l4 (Some errInvalidNumberOfArguments) else
      (case ParseFloat e smeters of
         None \<Rightarrow>
           Return (setRoam (\<lambda>r. r\<lparr>roam_meters := 0\<rparr>) l4) (Some (errInvalidArgument smeters))
       | Some meters \<Rightarrow>
      (let l5 = setRoam (\<lambda>r. r\<lparr>roam_meters := meters\<rparr>) l4 in
      (case tokenval vs3 of (vs4, scan, ok4) \<Rightarrow>
       if ok4 then
         (if ToLower scan \<noteq> ''scan'' then Return l5 (Some (errInvalidArgument scan)) else
         (case tokenval vs4 of (vs5, scan2, ok5) \<Rightarrow>
          if \<not> ok5 \<or> scan2 = [] then Return l5 (Some errInvalidNumberOfArguments)
          else Continue vs5 (setRoam (\<lambda>r. r\<lparr>roam_scan := scan2\<rparr>) l5) None))
       else Continue vs4 l5 None))))))))))"

text \<open>
  \<^verbatim>\<open>switch ltyp\<close> (lines 237-446). A type that has no case (\<^verbatim>\<open>"geo"\<close> is in
  \<^verbatim>\<open>withinOrIntersectsTypes\<close>) falls through with nothing changed.
\<close>

definition switchType :: "env \<Rightarrow> string \<Rightarrow> string \<Rightarrow> string list \<Rightarrow> liveFenceSwitches \<Rightarrow> flow" where
  "switchType e command ltyp vs lfs =
     (if ltyp = ''point'' then casePoint e command vs lfs
      else if ltyp = ''circle'' then caseCircle e ltyp vs lfs
      else if ltyp = ''object'' then caseObject e vs lfs
      else if ltyp = ''sector'' then caseSector e ltyp vs lfs
      else if ltyp = ''bounds'' \<or> ltyp = ''hash'' \<or> ltyp = ''tile'' \<or> ltyp = ''mvt''
              \<or> ltyp = ''quadkey'' then caseRect e ltyp vs lfs
      else if ltyp = ''get'' then caseGet e vs lfs
      else if ltyp = ''roam'' then caseRoam e vs lfs
      else Continue vs lfs None)"

text \<open>
  The body of the loop \<^verbatim>\<open>for len(vs) > 0\<close> (lines 451-479): one \<^verbatim>\<open>clipby\<close> clause.
  \<open>Continue\<close> is the end of the body, back to the loop's test.
\<close>

definition clipStep :: "env \<Rightarrow> string list \<Rightarrow> liveFenceSwitches \<Rightarrow> flow" where
  "clipStep e vs0 lfs =
     (case tokenval vs0 of (vs1, tok, ok1) \<Rightarrow>
       if \<not> ok1 \<or> tok = [] then Return lfs (Some errInvalidNumberOfArguments) else
       if ToLower tok \<noteq> ''clipby'' then Return lfs (Some errInvalidNumberOfArguments) else
      (case tokenval vs1 of (vs2, tok2, ok2) \<Rightarrow>
       if \<not> ok2 \<or> tok2 = [] then Return lfs (Some errInvalidNumberOfArguments) else
      (let ltok = ToLower tok2 in
       if ltok = ''bounds'' \<or> ltok = ''hash'' \<or> ltok = ''tile'' \<or> ltok = ''quadkey'' then
         (case parseRectArea e ltok vs2 of (vs3, clipRect, x, y, z, perr) \<Rightarrow>
         (let lfs1 = setTokens (\<lambda>t. t\<lparr>tileX := x, tileY := y, tileZ := z\<rparr>) lfs in
          if perr = Some errNotRectangle
          then Return lfs1 (Some (errInvalidArgument (''cannot clipby '' @ ltok)))
          else if perr \<noteq> None then Return lfs1 perr
          else Continue vs3 (lfs1\<lparr>obj := Clip e (obj lfs1) clipRect\<rparr>) None))
       else Return lfs (Some (errInvalidArgument (''cannot clipby '' @ ltok))))))"

lemma tokenval_eq: "tokenval vs = (tl vs, (if vs = [] then [] else hd vs), vs \<noteq> [])"
  by (cases vs) auto

lemma suffix_tl_left: "suffix xs ys \<Longrightarrow> suffix (tl xs) ys"
  by (metis suffix_order.trans suffix_tl)

lemma rectBounds_suffix: "suffix (fst (rectBounds e ltyp vs)) vs"
  by (simp add: rectBounds_def tokenval_eq rectErr_def rectDone_def suffix_tl_left
      split: option.split)

lemma rectHash_suffix: "suffix (fst (rectHash e ltyp vs)) vs"
  by (simp add: rectHash_def tokenval_eq rectErr_def rectDone_def suffix_tl_left Let_def)

lemma rectQuadkey_suffix: "suffix (fst (rectQuadkey e ltyp vs)) vs"
  by (simp add: rectQuadkey_def tokenval_eq rectErr_def rectDone_def suffix_tl_left
      split: option.split prod.split)

lemma rectTile_suffix: "suffix (fst (rectTile e ltyp vs)) vs"
  by (simp add: rectTile_def tokenval_eq rectErr_def rectDone_def suffix_tl_left
      split: option.split prod.split)

lemma parseRectArea_suffix: "suffix (fst (parseRectArea e ltyp vs)) vs"
  by (simp add: parseRectArea_def rectBounds_suffix rectHash_suffix rectQuadkey_suffix
      rectTile_suffix rectErr_def)

lemma clipStep_suffix:
  assumes "clipStep e vs lfs = Continue vs' lfs' er"
  shows "vs \<noteq> [] \<and> tl vs \<noteq> [] \<and> suffix vs' (tl (tl vs))"
proof -
  have "suffix (fst (parseRectArea e (ToLower (hd (tl vs))) (tl (tl vs)))) (tl (tl vs))"
    by (rule parseRectArea_suffix)
  with assms show ?thesis
    by (auto simp: clipStep_def tokenval_eq Let_def split: if_splits prod.splits)
qed

lemma clipStep_length:
  assumes "clipStep e vs lfs = Continue vs' lfs' er"
  shows "length vs' < length vs"
proof -
  from clipStep_suffix [OF assms]
  have "vs \<noteq> []" and "length vs' \<le> length (tl (tl vs))"
    by (auto dest: suffix_length_le)
  then show ?thesis by (cases vs) auto
qed

text \<open>The loop \<^verbatim>\<open>for len(vs) > 0\<close> (lines 450-480), with the variable \<^verbatim>\<open>err\<close>.\<close>

function clipLoop :: "env \<Rightarrow> string list \<Rightarrow> liveFenceSwitches \<Rightarrow> error option \<Rightarrow> flow" where
  "clipLoop e vs lfs err =
     (if length vs > 0 then
        (case clipStep e vs lfs of
           Return l er \<Rightarrow> Return l er
         | Continue vs' l' er' \<Rightarrow> clipLoop e vs' l' er')
      else Continue vs lfs err)"
  by pat_completeness auto
termination
  by (relation "measure (\<lambda>(e, vs, lfs, err). length vs)") (auto dest: clipStep_length)

declare clipLoop.simps [simp del]

text \<open>
  \<^verbatim>\<open>func (s *Server) cmdSearchArgs(fromFenceCmd bool, cmd string, vs []string,
  types map[string]bool) (lfs liveFenceSwitches, err error)\<close>. A key that is not in the
  map \<^verbatim>\<open>types\<close> reads as false. \<open>afterSwitch\<close> is the code after the switch (lines
  448-489): the \<^verbatim>\<open>clipby\<close> loop and the buffer.
\<close>

definition afterSwitch :: "env \<Rightarrow> flow \<Rightarrow> liveFenceSwitches \<times> error option" where
  "afterSwitch e fl =
     (case fl of
        Return l er \<Rightarrow> (l, er)
      | Continue vs4 l4 er4 \<Rightarrow>
          (case clipLoop e vs4 l4 er4 of
             Return l er \<Rightarrow> (l, er)
           | Continue vs5 l5 er5 \<Rightarrow>
               if hasbuffer (searchScanBaseTokens l5) then
                 (case bufferSimple e (obj l5) (buffer (searchScanBaseTokens l5)) of
                    (g, berr) \<Rightarrow> (l5\<lparr>obj := g\<rparr>, berr))
               else (l5, er5)))"

text \<open>
  Lines 217-226: with the output mode \<^verbatim>\<open>bounds\<close> and a numeric next token, the token is
  the first coordinate of a \<^verbatim>\<open>BOUNDS\<close> target. The result is the new \<^verbatim>\<open>vs\<close>, \<^verbatim>\<open>typ\<close>
  and \<^verbatim>\<open>lfs\<close>.
\<close>

definition implicitBounds ::
    "env \<Rightarrow> string \<Rightarrow> string \<Rightarrow> string list \<Rightarrow> liveFenceSwitches
      \<Rightarrow> string list \<times> string \<times> liveFenceSwitches" where
  "implicitBounds e command typ vs lfs =
     (if output_mode (searchScanBaseTokens lfs) = outputBounds
         \<and> (command = ''within'' \<or> command = ''intersects'')
         \<and> ParseFloat e typ \<noteq> None
      then (typ # vs, ''BOUNDS'',
            setTokens (\<lambda>t. t\<lparr>output_mode := defaultSearchOutput e\<rparr>) lfs)
      else (vs, typ, lfs))"

definition cmdSearchArgs ::
    "env \<Rightarrow> bool \<Rightarrow> string \<Rightarrow> string list \<Rightarrow> (string \<rightharpoonup> bool)
      \<Rightarrow> liveFenceSwitches \<times> error option" where
  "cmdSearchArgs e fromFenceCmd command vs0 types =
     (let t0 = (if fromFenceCmd then zeroTokens\<lparr>fence := True\<rparr> else zeroTokens) in
      (case parseSearchScanBaseTokens e command t0 vs0 of (vs1, t, perr) \<Rightarrow>
       if perr \<noteq> None then (zeroLfs, perr) else
      (let lfs = zeroLfs\<lparr>searchScanBaseTokens := t\<rparr> in
      (case tokenval vs1 of (vs2, typ, ok) \<Rightarrow>
       if \<not> ok \<or> typ = [] then (lfs, Some errInvalidNumberOfArguments) else
      (case implicitBounds e command typ vs2 lfs of (vs3, typ1, lfs1) \<Rightarrow>
      (let ltyp = ToLower typ1;
           found0 = (types ltyp = Some True);
           found = (if \<not> found0 \<and> fence (searchScanBaseTokens lfs1) \<and> ltyp = ''roam''
                       \<and> command = ''nearby'' then True else found0) in
       if \<not> found then (lfs1, Some (errInvalidArgument typ1))
       else afterSwitch e (switchType e command ltyp vs3 lfs1)))))))"

text \<open>\<^verbatim>\<open>var nearbyTypes\<close> and \<^verbatim>\<open>var withinOrIntersectsTypes\<close>\<close>

definition nearbyTypes :: "string \<rightharpoonup> bool" where
  "nearbyTypes = map_of [(''point'', True)]"

definition withinOrIntersectsTypes :: "string \<rightharpoonup> bool" where
  "withinOrIntersectsTypes = map_of
     [(''geo'', True), (''bounds'', True), (''hash'', True), (''tile'', True),
      (''quadkey'', True), (''get'', True), (''object'', True), (''circle'', True),
      (''point'', True), (''sector'', True), (''mvt'', True)]"

subsection \<open>Query execution\<close>

text \<open>
  The calls a command makes to the scan writer and to the index, in the order it makes
  them: every call of the source to \<^verbatim>\<open>newScanWriter\<close>, to a traversal primitive of the
  collection, to \<^verbatim>\<open>pushObject\<close> (with its parameters), to \<^verbatim>\<open>writeFoot\<close> (with the scan
  writer it is called on) and the deferred \<^verbatim>\<open>Close\<close> adds one event to the log.
\<close>

datatype event =
    evNewScanWriter
  | evNearby
  | evIntersects
  | evWithin
  | evSearchValues
  | evSearchValuesRange
  | evPushObject ScanWriterParams
  | evWriteFoot scanWriter
  | evClose

text \<open>
  A command returns \<^verbatim>\<open>(res, err)\<close>, or panics: \<^verbatim>\<open>msg.Args[1:]\<close> panics on an empty
  \<^verbatim>\<open>Args\<close>, and the type assertion \<^verbatim>\<open>sargs.obj.(*geojson.Circle)\<close> on an object that is
  no circle.
\<close>

datatype outcome =
    Returned respValue "error option"
  | Panicked

text \<open>
  The state an iterator works on: the scan writer, the variable \<^verbatim>\<open>ierr\<close> and the log.
\<close>

type_synonym travState = "scanWriter \<times> error option \<times> event list"

text \<open>
  Modelled from the spec: a traversal primitive calls the iterator on each candidate,
  in order, and stops as soon as the iterator returns false.
\<close>

fun traverse :: "('c \<Rightarrow> travState \<Rightarrow> bool \<times> travState) \<Rightarrow> 'c list \<Rightarrow> travState \<Rightarrow> travState" where
  "traverse iter [] st = st"
| "traverse iter (c # cs) st =
     (case iter c st of (keepGoing, st') \<Rightarrow> if keepGoing then traverse iter cs st' else st')"

text \<open>
  The statements every iterator of \<^verbatim>\<open>search.go\<close> ends with:
  \<^verbatim>\<open>keepGoing, err := sw.pushObject(params); if err != nil { ierr = err; return false };
  return keepGoing\<close>.
\<close>

definition pushStep :: "env \<Rightarrow> ScanWriterParams \<Rightarrow> travState \<Rightarrow> bool \<times> travState" where
  "pushStep e params st =
     (case st of (sw, ierr, lg) \<Rightarrow>
     (case pushObject e sw params of (sw', keepGoing, perr) \<Rightarrow>
      if perr \<noteq> None then (False, (sw', perr, lg @ [evPushObject params]))
      else (keepGoing, (sw', ierr, lg @ [evPushObject params]))))"

text \<open>\<^verbatim>\<open>ScanWriterParams{obj: o}\<close>: the other fields hold their zero values.\<close>

definition objParams :: "object \<Rightarrow> ScanWriterParams" where
  "objParams ob = \<lparr>p_obj = ob, p_dist = 0, p_distOutput = False, p_ignoreGlobMatch = False,
     p_skipTesting = False, p_clip = None\<rparr>"

text \<open>The closures of \<^verbatim>\<open>cmdNearby\<close>: \<^verbatim>\<open>iterStep\<close> (lines 536-549), the iterator of the
  SPARSE branch (lines 558-564) and the iterator of the other branch (lines 567-576).\<close>

definition iterStep :: "env \<Rightarrow> liveFenceSwitches \<Rightarrow> object \<Rightarrow> real \<Rightarrow> travState \<Rightarrow> bool \<times> travState" where
  "iterStep e sargs ob dst st =
     pushStep e \<lparr>p_obj = ob, p_dist = dst,
       p_distOutput = distance (searchScanBaseTokens sargs), p_ignoreGlobMatch = True,
       p_skipTesting = True, p_clip = None\<rparr> st"

definition sparseIter :: "env \<Rightarrow> liveFenceSwitches \<Rightarrow> object \<Rightarrow> travState \<Rightarrow> bool \<times> travState" where
  "sparseIter e sargs ob st =
     (let dst = (if distance (searchScanBaseTokens sargs)
                 then Distance e (Geo ob) (obj sargs) else 0)
      in iterStep e sargs ob dst st)"

definition nearbyIter ::
    "env \<Rightarrow> liveFenceSwitches \<Rightarrow> real \<Rightarrow> object \<times> real \<Rightarrow> travState \<Rightarrow> bool \<times> travState" where
  "nearbyIter e sargs maxDist cand st =
     (case cand of (ob, dst) \<Rightarrow>
      if maxDist > 0 \<and> dst > maxDist then (False, st)
      else (let meters = (if distance (searchScanBaseTokens sargs) then dst else 0)
            in iterStep e sargs ob meters st))"

text \<open>
  The end of the three commands (lines 580-588, 664-672, 791-799): the error of the
  iterator, or the foot and the reply.
\<close>

definition finish :: "env \<Rightarrow> Message \<Rightarrow> travState \<Rightarrow> outcome \<times> event list" where
  "finish e msg st =
     (case st of (sw, ierr, lg) \<Rightarrow>
     (case ierr of
        Some er \<Rightarrow> (case retrerr e er of (r, er') \<Rightarrow> (Returned r er', lg))
      | None \<Rightarrow>
         (let sw1 = writeFoot e sw in
          if OutputType msg = JSON
          then (Returned (BytesValue (sw_wr sw1 @ '',\"elapsed\":\"'' @ elapsed e @ ''\"}'')) None,
                lg @ [evWriteFoot sw])
          else (Returned (sw_respOut sw1) None, lg @ [evWriteFoot sw]))))"

text \<open>
  The deferred calls (lines 506-515): with \<^verbatim>\<open>usingLua\<close>, \<^verbatim>\<open>Close\<close> runs when the command
  returns or panics. The deferred \<^verbatim>\<open>recover\<close> turns a panic with a string into an error;
  the panics of this model are run-time errors, which it raises again.
\<close>

definition deferred :: "liveFenceSwitches \<Rightarrow> outcome \<times> event list \<Rightarrow> outcome \<times> event list" where
  "deferred sargs r = (if usingLua sargs then (fst r, snd r @ [evClose]) else r)"

text \<open>The call of \<^verbatim>\<open>newScanWriter\<close> (lines 523-527), with the flag that differs.\<close>

definition callNewScanWriter ::
    "env \<Rightarrow> Message \<Rightarrow> liveFenceSwitches \<Rightarrow> bool \<Rightarrow> scanWriter \<times> error option" where
  "callNewScanWriter e msg sargs matchValues =
     (let t = searchScanBaseTokens sargs in
      newScanWriter e msg (key t) (output_mode t) (precision t) (globs t) matchValues
        (cursor t) (limit t) (wheres t) (whereins t) (whereevals t) (nofields t)
        (mvt t) (tileX t) (tileY t) (tileZ t))"

text \<open>\<^verbatim>\<open>if msg.OutputType == JSON { wr.WriteString(`{"ok":true`) }\<close>\<close>

definition writeOk :: "Message \<Rightarrow> scanWriter \<Rightarrow> scanWriter" where
  "writeOk msg sw =
     (if OutputType msg = JSON then sw\<lparr>sw_wr := sw_wr sw @ ''{\"ok\":true''\<rparr> else sw)"

text \<open>\<^verbatim>\<open>func (s *Server) cmdNearby(msg *Message) (res resp.Value, err error)\<close>\<close>

definition cmdNearby :: "env \<Rightarrow> Message \<Rightarrow> outcome \<times> event list" where
  "cmdNearby e msg =
     (if Args msg = [] then (Panicked, []) else
     (case cmdSearchArgs e False ''nearby'' (tl (Args msg)) nearbyTypes of (sargs0, err) \<Rightarrow>
      deferred sargs0
       (if err \<noteq> None then (Returned NOMessage err, []) else
       (let sargs = sargs0\<lparr>cmd := ''nearby''\<rparr> in
        if fence (searchScanBaseTokens sargs)
        then (Returned NOMessage (Some (goingLiveError sargs)), []) else
       (case callNewScanWriter e msg sargs False of (sw0, nerr) \<Rightarrow>
        if nerr \<noteq> None then (Returned NOMessage nerr, [evNewScanWriter]) else
       (let sw = writeOk msg sw0 in
       (case sw_col sw of
          None \<Rightarrow> finish e msg (sw, None, [evNewScanWriter])
        | Some c \<Rightarrow>
           (case obj sargs of
              Some (NewCircle center maxDist steps) \<Rightarrow>
                if sparse (searchScanBaseTokens sargs) > 0 then
                  (if maxDist < 0
                   then (Returned NOMessage
                           (Some (errorString ''cannot use SPARSE without a point distance'')),
                         [evNewScanWriter])
                   else finish e msg
                          (traverse (sparseIter e sargs)
                             (Intersects c (obj sargs) (sparse (searchScanBaseTokens sargs)))
                             (sw, None, [evNewScanWriter, evIntersects])))
                else finish e msg
                       (traverse (nearbyIter e sargs maxDist) (Nearby c (obj sargs))
                          (sw, None, [evNewScanWriter, evNearby]))
            | _ \<Rightarrow> (Panicked, [evNewScanWriter])))))))))"

text \<open>
  The iterators of \<^verbatim>\<open>cmdWITHINorINTERSECTS\<close> (lines 638-645 and 649-660).
\<close>

definition withinIter :: "env \<Rightarrow> object \<Rightarrow> travState \<Rightarrow> bool \<times> travState" where
  "withinIter e ob st = pushStep e (objParams ob) st"

definition intersectsIter :: "env \<Rightarrow> liveFenceSwitches \<Rightarrow> object \<Rightarrow> travState \<Rightarrow> bool \<times> travState" where
  "intersectsIter e sargs ob st =
     (let params = objParams ob;
          params1 = (if clip (searchScanBaseTokens sargs) then params\<lparr>p_clip := obj sargs\<rparr>
                     else params)
      in pushStep e params1 st)"

text \<open>\<^verbatim>\<open>func (s *Server) cmdWITHINorINTERSECTS(cmd string, msg *Message)\<close>\<close>

definition cmdWITHINorINTERSECTS :: "env \<Rightarrow> string \<Rightarrow> Message \<Rightarrow> outcome \<times> event list" where
  "cmdWITHINorINTERSECTS e command msg =
     (if Args msg = [] then (Panicked, []) else
     (case cmdSearchArgs e False command (tl (Args msg)) withinOrIntersectsTypes of
        (sargs0, err) \<Rightarrow>
      deferred sargs0
       (if err \<noteq> None then (Returned NOMessage err, []) else
       (let sargs = sargs0\<lparr>cmd := command\<rparr> in
        if fence (searchScanBaseTokens sargs)
        then (Returned NOMessage (Some (goingLiveError sargs)), []) else
       (case callNewScanWriter e msg sargs False of (sw0, nerr) \<Rightarrow>
        if nerr \<noteq> None then (Returned NOMessage nerr, [evNewScanWriter]) else
       (let sw = writeOk msg sw0 in
       (case sw_col sw of
          None \<Rightarrow> finish e msg (sw, None, [evNewScanWriter])
        | Some c \<Rightarrow>
            if command = ''within'' then
              finish e msg
                (traverse (withinIter e)
                   (Within c (obj sargs) (sparse (searchScanBaseTokens sargs)))
                   (sw, None, [evNewScanWriter, evWithin]))
            else if command = ''intersects'' then
              finish e msg
                (traverse (intersectsIter e sargs)
                   (Intersects c (obj sargs) (sparse (searchScanBaseTokens sargs)))
                   (sw, None, [evNewScanWriter, evIntersects]))
            else finish e msg (sw, None, [evNewScanWriter]))))))))"

definition cmdWITHIN :: "env \<Rightarrow> Message \<Rightarrow> outcome \<times> event list" where
  "cmdWITHIN e msg = cmdWITHINorINTERSECTS e ''within'' msg"

definition cmdINTERSECTS :: "env \<Rightarrow> Message \<Rightarrow> outcome \<times> event list" where
  "cmdINTERSECTS e msg = cmdWITHINorINTERSECTS e ''intersects'' msg"
text \<open>\<^verbatim>\<open>func (s *Server) cmdSeachValuesArgs(vs []string) (lfs liveFenceSwitches, err error)\<close>\<close>

definition cmdSeachValuesArgs :: "env \<Rightarrow> string list \<Rightarrow> liveFenceSwitches \<times> error option" where
  "cmdSeachValuesArgs e vs0 =
     (case parseSearchScanBaseTokens e ''search'' zeroTokens vs0 of (vs1, t, perr) \<Rightarrow>
      if perr \<noteq> None then (zeroLfs, perr) else
      (let lfs = zeroLfs\<lparr>searchScanBaseTokens := t\<rparr> in
       if length vs1 \<noteq> 0 then (lfs, Some errInvalidNumberOfArguments) else (lfs, None)))"

text \<open>
  \<^verbatim>\<open>func multiGlobParse(globs []string, desc bool) [2]string\<close>. \<open>multiGlobLoop\<close> is the
  loop \<^verbatim>\<open>for i, pattern := range globs\<close>, with the index \<^verbatim>\<open>i\<close> and the array \<^verbatim>\<open>limits\<close>
  as a pair; Go compares strings byte by byte, as the lexicographic order on
  \<^typ>\<open>string\<close> does.
\<close>

fun multiGlobLoop :: "env \<Rightarrow> bool \<Rightarrow> nat \<Rightarrow> string list \<Rightarrow> string \<times> string \<Rightarrow> string \<times> string" where
  "multiGlobLoop e dsc i [] limits = limits"
| "multiGlobLoop e dsc i (pattern # rest) limits =
     (let g = globParse e pattern dsc in
      if fst g = [] \<and> snd g = [] then ([], [])
      else if i = 0 then multiGlobLoop e dsc (Suc i) rest (fst g, snd g)
      else if dsc then
        multiGlobLoop e dsc (Suc i) rest
          (if fst g > fst limits then fst g else fst limits,
           if snd g < snd limits then snd g else snd limits)
      else
        multiGlobLoop e dsc (Suc i) rest
          (if fst g < fst limits then fst g else fst limits,
           if snd g > snd limits then snd g else snd limits))"

definition multiGlobParse :: "env \<Rightarrow> string list \<Rightarrow> bool \<Rightarrow> string \<times> string" where
  "multiGlobParse e gs dsc = multiGlobLoop e dsc 0 gs ([], [])"

text \<open>The iterator of \<^verbatim>\<open>cmdSearch\<close> (lines 761-770 and 777-786).\<close>

definition searchIter :: "env \<Rightarrow> object \<Rightarrow> travState \<Rightarrow> bool \<times> travState" where
  "searchIter e ob st = pushStep e (objParams ob) st"

text \<open>
  Lines 752-756: \<^verbatim>\<open>count := sw.col.Count() - int(sargs.cursor)\<close>, floored at zero, stored
  as \<^verbatim>\<open>uint64(count)\<close>. The conversions \<^verbatim>\<open>int(...)\<close> and \<^verbatim>\<open>uint64(...)\<close> keep the 64 bits,
  the subtraction wraps around, and \<^verbatim>\<open>count < 0\<close> reads the bits as a signed number.
\<close>

definition countShortcut :: "64 word \<Rightarrow> 64 word \<Rightarrow> 64 word" where
  "countShortcut n cur =
     (let count = n - cur;
          count1 = (if sint count < 0 then 0 else count)
      in count1)"

text \<open>\<^verbatim>\<open>func (s *Server) cmdSearch(msg *Message) (res resp.Value, err error)\<close>\<close>

definition cmdSearch :: "env \<Rightarrow> Message \<Rightarrow> outcome \<times> event list" where
  "cmdSearch e msg =
     (if Args msg = [] then (Panicked, []) else
     (case cmdSeachValuesArgs e (tl (Args msg)) of (sargs, err) \<Rightarrow>
      deferred sargs
       (if err \<noteq> None then (Returned NOMessage err, []) else
       (case callNewScanWriter e msg sargs True of (sw0, nerr) \<Rightarrow>
        if nerr \<noteq> None then (Returned NOMessage nerr, [evNewScanWriter]) else
       (let sw = writeOk msg sw0 in
       (case sw_col sw of
          None \<Rightarrow> finish e msg (sw, None, [evNewScanWriter])
        | Some c \<Rightarrow>
            if sw_output sw = outputCount \<and> length (sw_wheres sw) = 0 \<and> sw_globEverything sw
            then finish e msg
                   (sw\<lparr>sw_count := countShortcut (Count c) (cursor (searchScanBaseTokens sargs))\<rparr>,
                    None, [evNewScanWriter])
            else
             (let limits = multiGlobParse e (sw_globs sw) (desc (searchScanBaseTokens sargs)) in
              if fst limits = [] \<and> snd limits = [] then
                finish e msg
                  (traverse (searchIter e)
                     (SearchValues c (desc (searchScanBaseTokens sargs)))
                     (sw, None, [evNewScanWriter, evSearchValues]))
              else
                finish e msg
                  (traverse (searchIter e)
                     (SearchValuesRange c (fst limits) (snd limits)
                        (desc (searchScanBaseTokens sargs)))
                     (sw, None, [evNewScanWriter, evSearchValuesRange])))))))))"

subsection \<open>A concrete server\<close>

text \<open>
  The evaluations below run the definitions on a small server. Its collaborators answer
  on the tokens the evaluations use: \<open>floats0\<close> and \<open>ints0\<close> are what
  \<^verbatim>\<open>strconv.ParseFloat\<close> and \<^verbatim>\<open>strconv.Atoi\<close> return on these tokens (and on the token
  of the largest \<^verbatim>\<open>uint64\<close>, which the cursor option reads); \<open>baseTokens0\<close> reads the key
  and then the options CLIP, FENCE, DISTANCE, COUNT, SPARSE n and CURSOR n;
  \<open>TileXYToBounds0\<close> is exact at the zoom levels 0 and 1, whose bounds are rational, and
  is not used at the others; the collection \<open>fleet\<close> holds three objects, at (0,0), (0,1)
  and (0,5), with their distances in meters from (0,0).
\<close>

definition floats0 :: "string \<rightharpoonup> real" where
  "floats0 = map_of [(''0'', 0), (''1'', 1), (''2'', 2), (''3'', 3), (''4'', 4), (''10'', 10),
     (''-5'', - 5), (''500'', 500), (''150000'', 150000)]"

definition ints0 :: "string \<rightharpoonup> int" where
  "ints0 = map_of [(''0'', 0), (''1'', 1), (''2'', 2), (''3'', 3),
     (''18446744073709551615'', 18446744073709551615)]"

fun options0 :: "string list \<Rightarrow> searchScanBaseTokens \<Rightarrow> string list \<times> searchScanBaseTokens" where
  "options0 [] t = ([], t)"
| "options0 (v # vs) t =
     (if ToLower v = ''clip'' then options0 vs (t\<lparr>clip := True\<rparr>)
      else if ToLower v = ''fence'' then options0 vs (t\<lparr>fence := True\<rparr>)
      else if ToLower v = ''distance'' then options0 vs (t\<lparr>distance := True\<rparr>)
      else if ToLower v = ''count'' then options0 vs (t\<lparr>output_mode := outputCount\<rparr>)
      else if ToLower v = ''sparse'' then
        (case vs of
           [] \<Rightarrow> (v # vs, t)
         | n # vs' \<Rightarrow>
            (case ints0 n of
               None \<Rightarrow> (v # vs, t)
             | Some k \<Rightarrow> options0 vs' (t\<lparr>sparse := word_of_int k\<rparr>)))
      else if ToLower v = ''cursor'' then
        (case vs of
           [] \<Rightarrow> (v # vs, t)
         | n # vs' \<Rightarrow>
            (case ints0 n of
               None \<Rightarrow> (v # vs, t)
             | Some k \<Rightarrow> options0 vs' (t\<lparr>cursor := word_of_int k\<rparr>)))
      else (v # vs, t))"

definition baseTokens0 ::
    "string \<Rightarrow> searchScanBaseTokens \<Rightarrow> string list
      \<Rightarrow> string list \<times> searchScanBaseTokens \<times> error option" where
  "baseTokens0 command t vs =
     (case vs of
        [] \<Rightarrow> ([], t, Some errInvalidNumberOfArguments)
      | k # rest \<Rightarrow>
         (case options0 rest (t\<lparr>key := k, output_mode := outputObjects\<rparr>) of
            (vs', t') \<Rightarrow> (vs', t', None)))"

definition TileXYToBounds0 :: "int \<Rightarrow> int \<Rightarrow> int \<Rightarrow> real \<times> real \<times> real \<times> real" where
  "TileXYToBounds0 x y z =
     (if z = 1 then
        (if y = 0 then 0 else MinLatitude, if x = 0 then MinLongitude else 0,
         if y = 0 then MaxLatitude else 0, if x = 0 then 0 else MaxLongitude)
      else (MinLatitude, MinLongitude, MaxLatitude, MaxLongitude))"

definition QuadKeyToBounds0 :: "string \<Rightarrow> (real \<times> real \<times> real \<times> real) option" where
  "QuadKeyToBounds0 k =
     (if k = ''0'' then Some (TileXYToBounds0 0 0 1)
      else if k = ''1'' then Some (TileXYToBounds0 1 0 1)
      else if k = ''2'' then Some (TileXYToBounds0 0 1 1)
      else if k = ''3'' then Some (TileXYToBounds0 1 1 1)
      else None)"

definition BoundingBox0 :: "string \<Rightarrow> box" where
  "BoundingBox0 h =
     (if h = ''s'' then \<lparr>MinLat = 0, MaxLat = 45, MinLng = 0, MaxLng = 45\<rparr>
      else \<lparr>MinLat = - 90, MaxLat = 90, MinLng = - 180, MaxLng = 180\<rparr>)"

definition globParse0 :: "string \<Rightarrow> bool \<Rightarrow> string \<times> string" where
  "globParse0 p dsc =
     (case map_of [(''abc*'', (''abc'', ''abd'')), (''abd*'', (''abd'', ''abe''))] p of
        Some l \<Rightarrow> l
      | None \<Rightarrow> ([], []))"

definition truck1 :: object where "truck1 = \<lparr>ID = ''truck1'', Geo = NewPoint \<lparr>ptX = 0, ptY = 0\<rparr>\<rparr>"
definition truck2 :: object where "truck2 = \<lparr>ID = ''truck2'', Geo = NewPoint \<lparr>ptX = 1, ptY = 0\<rparr>\<rparr>"
definition truck3 :: object where "truck3 = \<lparr>ID = ''truck3'', Geo = NewPoint \<lparr>ptX = 5, ptY = 0\<rparr>\<rparr>"

definition fleet :: collection where
  "fleet = \<lparr>Count = 3,
     Get = map_of [(''truck1'', truck1), (''truck2'', truck2), (''truck3'', truck3)],
     Nearby = (\<lambda>g. [(truck1, 0), (truck2, 111195), (truck3, 555975)]),
     Intersects = (\<lambda>g n. [truck1, truck2]),
     Within = (\<lambda>g n. [truck1, truck2]),
     SearchValues = (\<lambda>d. if d then [truck3, truck2, truck1] else [truck1, truck2, truck3]),
     SearchValuesRange = (\<lambda>lo hi d. [truck2])\<rparr>"

definition cols0 :: "string \<Rightarrow> collection option" where
  "cols0 = map_of [(''fleet'', fleet)]"

definition newScanWriter0 ::
    "Message \<Rightarrow> string \<Rightarrow> outputT \<Rightarrow> 64 word \<Rightarrow> string list \<Rightarrow> bool
      \<Rightarrow> 64 word \<Rightarrow> 64 word \<Rightarrow> whereT list \<Rightarrow> whereinT list \<Rightarrow> whereevalT list
      \<Rightarrow> bool \<Rightarrow> bool \<Rightarrow> int \<Rightarrow> int \<Rightarrow> int \<Rightarrow> scanWriter \<times> error option" where
  "newScanWriter0 msg k out prec gs matchValues cur lmt ws wis wes nf m x y z =
     (\<lparr>sw_wr = [], sw_col = cols0 k, sw_output = out, sw_wheres = ws, sw_globs = gs,
       sw_globEverything = (gs = []), sw_count = 0, sw_respOut = OtherValue [],
       sw_state = []\<rparr>, None)"


definition pushObject0 :: "scanWriter \<Rightarrow> ScanWriterParams \<Rightarrow> scanWriter \<times> bool \<times> error option" where
  "pushObject0 sw params =
     (sw\<lparr>sw_count := sw_count sw + 1, sw_state := sw_state sw @ [ID (p_obj params)]\<rparr>,
      True, None)"

definition env0 :: env where
  "env0 = \<lparr>parseSearchScanBaseTokens = baseTokens0,
     defaultSearchOutput = outputObjects,
     ParseFloat = floats0,
     Atoi = ints0,
     TileXYToBounds = TileXYToBounds0,
     QuadKeyToBounds = QuadKeyToBounds0,
     BoundingBox = BoundingBox0,
     geojsonParse = (\<lambda>s. (Some (Geometry s), None)),
     sectorJSON = (\<lambda>lon lat meters b1 b2. ''sector''),
     IsGlob = (\<lambda>s. list_ex (\<lambda>c. c \<in> set ''*?['') s),
     cols = cols0,
     Clip = (\<lambda>g r. case g of None \<Rightarrow> None | Some x \<Rightarrow> Some (Geometry ''clipped'')),
     bufferSimple = (\<lambda>g m. (g, None)),
     Distance = (\<lambda>g target. 0),
     globParse = globParse0,
     newScanWriter = newScanWriter0,
     pushObject = pushObject0,
     writeFoot = (\<lambda>sw. sw),
     retrerr = (\<lambda>er. (NOMessage, Some er)),
     elapsed = ''1ms''\<rparr>"

text \<open>
  The defining equations used to run the resolution and the commands on the concrete
  server.
\<close>

lemmas resolve_defs =
  cmdSearchArgs_def implicitBounds_def afterSwitch_def clipLoop.simps switchType_def casePoint_def caseCircle_def caseObject_def
  caseSector_def caseRect_def caseGet_def caseRoam_def clipStep_def parseRectArea_def
  rectBounds_def rectHash_def rectQuadkey_def rectTile_def rectErr_def rectDone_def mkRect_def
  expandMvt_def setTokens_def setRoam_def ToLower_def toLowerChar_def defaultCircleSteps_def
  zeroLfs_def zeroTokens_def zeroRoam_def nearbyTypes_def withinOrIntersectsTypes_def
  MinLatitude_def MaxLatitude_def MinLongitude_def MaxLongitude_def

lemmas server0_defs =
  env0_def baseTokens0_def floats0_def ints0_def TileXYToBounds0_def QuadKeyToBounds0_def
  BoundingBox0_def globParse0_def cols0_def fleet_def truck1_def truck2_def truck3_def
  newScanWriter0_def pushObject0_def

lemmas exec_defs =
  cmdNearby_def cmdWITHINorINTERSECTS_def cmdSearch_def cmdSeachValuesArgs_def
  callNewScanWriter_def writeOk_def deferred_def usingLua_def finish_def pushStep_def
  iterStep_def sparseIter_def nearbyIter_def withinIter_def intersectsIter_def
  searchIter_def objParams_def countShortcut_def multiGlobParse_def

section \<open>Properties\<close>

subsection \<open>The value-range bounds of multiGlobParse\<close>

lemma multiGlobLoop_Cons_empty:
  "globParse e p dsc = ([], []) \<Longrightarrow> multiGlobLoop e dsc i (p # rest) lm = ([], [])"
  by (simp add: Let_def)

lemma if_less_min: "(if (a::'a::linorder) < b then a else b) = min a b"
  by (auto simp: min_def)

lemma if_greater_max: "(if (a::'a::linorder) > b then a else b) = max a b"
  by (auto simp: max_def)

lemma multiGlobLoop_Cons:
  assumes "globParse e p dsc \<noteq> ([], [])"
  shows "multiGlobLoop e dsc i (p # rest) lm =
           multiGlobLoop e dsc (Suc i) rest
             (if i = 0 then (fst (globParse e p dsc), snd (globParse e p dsc))
              else if dsc
                then (max (fst (globParse e p dsc)) (fst lm), min (snd (globParse e p dsc)) (snd lm))
                else (min (fst (globParse e p dsc)) (fst lm), max (snd (globParse e p dsc)) (snd lm)))"
proof (cases "fst (globParse e p dsc) = []")
  case True
  with assms have "snd (globParse e p dsc) \<noteq> []" by (auto simp: prod_eq_iff)
  then show ?thesis by (simp add: Let_def if_less_min if_greater_max)
next
  case False
  then show ?thesis by (simp add: Let_def if_less_min if_greater_max)
qed

lemma multiGlobLoop_no_bound:
  "\<exists>p\<in>set gs. globParse e p dsc = ([], []) \<Longrightarrow> multiGlobLoop e dsc i gs lm = ([], [])"
proof (induction gs arbitrary: i lm)
  case Nil
  then show ?case by simp
next
  case (Cons p rest)
  show ?case
  proof (cases "globParse e p dsc = ([], [])")
    case True
    then show ?thesis by (rule multiGlobLoop_Cons_empty)
  next
    case False
    with Cons.prems have ex: "\<exists>q\<in>set rest. globParse e q dsc = ([], [])" by auto
    show ?thesis
      unfolding multiGlobLoop_Cons [OF False] by (rule Cons.IH [OF ex])
  qed
qed

lemma Min_insert_min:
  fixes a :: "'a::linorder"
  assumes "finite S"
  shows "Min (insert (min b a) S) = Min (insert a (insert b S))"
proof (cases "S = {}")
  case True
  then show ?thesis by (simp add: min.commute)
next
  case False
  with assms show ?thesis by (simp add: min.assoc min.left_commute min.commute)
qed

lemma Max_insert_max:
  fixes a :: "'a::linorder"
  assumes "finite S"
  shows "Max (insert (max b a) S) = Max (insert a (insert b S))"
proof (cases "S = {}")
  case True
  then show ?thesis by (simp add: max.commute)
next
  case False
  with assms show ?thesis by (simp add: max.assoc max.left_commute max.commute)
qed

lemma multiGlobLoop_ascending:
  assumes "\<forall>p\<in>set gs. globParse e p dsc \<noteq> ([], [])" and "0 < i" and "\<not> dsc"
  shows "multiGlobLoop e dsc i gs (lo, hi) =
           (Min (insert lo ((\<lambda>p. fst (globParse e p dsc)) ` set gs)),
            Max (insert hi ((\<lambda>p. snd (globParse e p dsc)) ` set gs)))"
  using assms
proof (induction gs arbitrary: i lo hi)
  case Nil
  then show ?case by simp
next
  case (Cons p rest)
  have ne: "globParse e p dsc \<noteq> ([], [])"
    using Cons.prems(1) by simp
  have rest: "\<forall>q\<in>set rest. globParse e q dsc \<noteq> ([], [])"
    using Cons.prems(1) by simp
  have "multiGlobLoop e dsc i (p # rest) (lo, hi) =
          multiGlobLoop e dsc (Suc i) rest
            (if i = 0 then (fst (globParse e p dsc), snd (globParse e p dsc))
             else if dsc
               then (max (fst (globParse e p dsc)) (fst (lo, hi)),
                     min (snd (globParse e p dsc)) (snd (lo, hi)))
               else (min (fst (globParse e p dsc)) (fst (lo, hi)),
                     max (snd (globParse e p dsc)) (snd (lo, hi))))"
    by (rule multiGlobLoop_Cons [OF ne])
  also have "\<dots> = multiGlobLoop e dsc (Suc i) rest
            (min (fst (globParse e p dsc)) lo, max (snd (globParse e p dsc)) hi)"
    using Cons.prems(2,3) by simp
  also have "\<dots> = (Min (insert (min (fst (globParse e p dsc)) lo)
                        ((\<lambda>p. fst (globParse e p dsc)) ` set rest)),
                    Max (insert (max (snd (globParse e p dsc)) hi)
                        ((\<lambda>p. snd (globParse e p dsc)) ` set rest)))"
    using Cons.IH [OF rest _ Cons.prems(3)] by simp
  finally have eq: "multiGlobLoop e dsc i (p # rest) (lo, hi) = \<dots>" .
  have f1: "finite ((\<lambda>p. fst (globParse e p dsc)) ` set rest)"
    and f2: "finite ((\<lambda>p. snd (globParse e p dsc)) ` set rest)" by simp_all
  show ?case
    unfolding eq list.set image_insert Min_insert_min [OF f1] Max_insert_max [OF f2]
      Min_insert_min [OF f2] Max_insert_max [OF f1]
    by (rule refl)
qed

lemma multiGlobLoop_descending:
  assumes "\<forall>p\<in>set gs. globParse e p dsc \<noteq> ([], [])" and "0 < i" and "dsc"
  shows "multiGlobLoop e dsc i gs (lo, hi) =
           (Max (insert lo ((\<lambda>p. fst (globParse e p dsc)) ` set gs)),
            Min (insert hi ((\<lambda>p. snd (globParse e p dsc)) ` set gs)))"
  using assms
proof (induction gs arbitrary: i lo hi)
  case Nil
  then show ?case by simp
next
  case (Cons p rest)
  have ne: "globParse e p dsc \<noteq> ([], [])"
    using Cons.prems(1) by simp
  have rest: "\<forall>q\<in>set rest. globParse e q dsc \<noteq> ([], [])"
    using Cons.prems(1) by simp
  have "multiGlobLoop e dsc i (p # rest) (lo, hi) =
          multiGlobLoop e dsc (Suc i) rest
            (if i = 0 then (fst (globParse e p dsc), snd (globParse e p dsc))
             else if dsc
               then (max (fst (globParse e p dsc)) (fst (lo, hi)),
                     min (snd (globParse e p dsc)) (snd (lo, hi)))
               else (min (fst (globParse e p dsc)) (fst (lo, hi)),
                     max (snd (globParse e p dsc)) (snd (lo, hi))))"
    by (rule multiGlobLoop_Cons [OF ne])
  also have "\<dots> = multiGlobLoop e dsc (Suc i) rest
            (max (fst (globParse e p dsc)) lo, min (snd (globParse e p dsc)) hi)"
    using Cons.prems(2,3) by simp
  also have "\<dots> = (Max (insert (max (fst (globParse e p dsc)) lo)
                        ((\<lambda>p. fst (globParse e p dsc)) ` set rest)),
                    Min (insert (min (snd (globParse e p dsc)) hi)
                        ((\<lambda>p. snd (globParse e p dsc)) ` set rest)))"
    using Cons.IH [OF rest _ Cons.prems(3)] by simp
  finally have eq: "multiGlobLoop e dsc i (p # rest) (lo, hi) = \<dots>" .
  have f1: "finite ((\<lambda>p. fst (globParse e p dsc)) ` set rest)"
    and f2: "finite ((\<lambda>p. snd (globParse e p dsc)) ` set rest)" by simp_all
  show ?case
    unfolding eq list.set image_insert Min_insert_min [OF f1] Max_insert_max [OF f2]
      Min_insert_min [OF f2] Max_insert_max [OF f1]
    by (rule refl)
qed

lemma multiGlobParse_first:
  assumes "globParse e p dsc \<noteq> ([], [])"
  shows "multiGlobParse e (p # rest) dsc =
           multiGlobLoop e dsc (Suc 0) rest (fst (globParse e p dsc), snd (globParse e p dsc))"
  unfolding multiGlobParse_def by (simp add: multiGlobLoop_Cons [OF assms] del: multiGlobLoop.simps)

text \<open>
  C7. For every list of patterns and sort direction: if some pattern has both limits
  empty, \<open>multiGlobParse\<close> returns the empty pair, whatever the other patterns are;
  otherwise (and with at least one pattern) it returns, ascending, the minimum of the
  lows and the maximum of the highs, and, descending, the maximum of the lows and the
  minimum of the highs. With no pattern at all it returns the empty pair.
\<close>

theorem multiGlobParse_limits:
  "((\<exists>p\<in>set gs. globParse e p dsc = ([], [])) \<longrightarrow> multiGlobParse e gs dsc = ([], []))
   \<and> (gs \<noteq> [] \<and> (\<forall>p\<in>set gs. globParse e p dsc \<noteq> ([], [])) \<longrightarrow>
        multiGlobParse e gs dsc =
          (if dsc
           then (Max ((\<lambda>p. fst (globParse e p dsc)) ` set gs),
                 Min ((\<lambda>p. snd (globParse e p dsc)) ` set gs))
           else (Min ((\<lambda>p. fst (globParse e p dsc)) ` set gs),
                 Max ((\<lambda>p. snd (globParse e p dsc)) ` set gs))))
   \<and> (gs = [] \<longrightarrow> multiGlobParse e gs dsc = ([], []))"
proof (intro conjI impI)
  assume "\<exists>p\<in>set gs. globParse e p dsc = ([], [])"
  then show "multiGlobParse e gs dsc = ([], [])"
    unfolding multiGlobParse_def by (rule multiGlobLoop_no_bound)
next
  assume a: "gs \<noteq> [] \<and> (\<forall>p\<in>set gs. globParse e p dsc \<noteq> ([], []))"
  then obtain p rest where gs: "gs = p # rest" by (cases gs) auto
  from a gs have p: "globParse e p dsc \<noteq> ([], [])"
    and rest: "\<forall>q\<in>set rest. globParse e q dsc \<noteq> ([], [])" by auto
  show "multiGlobParse e gs dsc =
          (if dsc
           then (Max ((\<lambda>p. fst (globParse e p dsc)) ` set gs),
                 Min ((\<lambda>p. snd (globParse e p dsc)) ` set gs))
           else (Min ((\<lambda>p. fst (globParse e p dsc)) ` set gs),
                 Max ((\<lambda>p. snd (globParse e p dsc)) ` set gs)))"
  proof (cases dsc)
    case True
    have "multiGlobParse e gs dsc =
            multiGlobLoop e dsc (Suc 0) rest (fst (globParse e p dsc), snd (globParse e p dsc))"
      unfolding gs by (rule multiGlobParse_first [OF p])
    also have "\<dots> = (Max (insert (fst (globParse e p dsc))
                            ((\<lambda>p. fst (globParse e p dsc)) ` set rest)),
                        Min (insert (snd (globParse e p dsc))
                            ((\<lambda>p. snd (globParse e p dsc)) ` set rest)))"
      by (rule multiGlobLoop_descending [OF rest _ True]) simp
    finally show ?thesis using True by (simp add: gs)
  next
    case False
    have "multiGlobParse e gs dsc =
            multiGlobLoop e dsc (Suc 0) rest (fst (globParse e p dsc), snd (globParse e p dsc))"
      unfolding gs by (rule multiGlobParse_first [OF p])
    also have "\<dots> = (Min (insert (fst (globParse e p dsc))
                            ((\<lambda>p. fst (globParse e p dsc)) ` set rest)),
                        Max (insert (snd (globParse e p dsc))
                            ((\<lambda>p. snd (globParse e p dsc)) ` set rest)))"
      by (rule multiGlobLoop_ascending [OF rest _ False]) simp
    finally show ?thesis using False by (simp add: gs)
  qed
next
  assume "gs = []"
  then show "multiGlobParse e gs dsc = ([], [])" by (simp add: multiGlobParse_def)
qed

theorem multiGlobParse_limits_witness:
  "multiGlobParse env0 [''abc*'', ''*''] False = ([], [])
   \<and> multiGlobParse env0 [''abc*'', ''abd*''] False = (''abc'', ''abe'')
   \<and> multiGlobParse env0 [''abc*'', ''abd*''] True = (''abd'', ''abd'')"
proof -
  have g1: "globParse env0 ''abc*'' d = (''abc'', ''abd'')" for d
    by (simp add: env0_def globParse0_def)
  have g2: "globParse env0 ''abd*'' d = (''abd'', ''abe'')" for d
    by (simp add: env0_def globParse0_def)
  have g3: "globParse env0 ''*'' d = ([], [])" for d
    by (simp add: env0_def globParse0_def)
  have "multiGlobParse env0 [''abc*'', ''*''] False = ([], [])"
    using multiGlobParse_limits [of "[''abc*'', ''*'']" env0 False] by (simp add: g3)
  moreover have "multiGlobParse env0 [''abc*'', ''abd*''] False = (''abc'', ''abe'')"
    using multiGlobParse_limits [of "[''abc*'', ''abd*'']" env0 False] by (simp add: g1 g2)
  moreover have "multiGlobParse env0 [''abc*'', ''abd*''] True = (''abd'', ''abd'')"
    using multiGlobParse_limits [of "[''abc*'', ''abd*'']" env0 True] by (simp add: g1 g2)
  ultimately show ?thesis by simp
qed

subsection \<open>The distance cutoff of the nearest-first traversal\<close>




subsection \<open>Fence commands go live\<close>

text \<open>
  C3. When the resolved descriptor has the fence flag set, \<open>cmdNearby\<close> and
  \<open>cmdWITHINorINTERSECTS\<close> return \<open>NOMessage\<close> and, as the error, the descriptor itself
  (with its command name set), whose \<open>Error\<close> message is \<open>goingLive\<close>. The log of calls
  holds no scan writer, no traversal and no push: it is empty, or the deferred \<open>Close\<close>
  alone when the descriptor holds evaluators.
\<close>

theorem fence_goes_live:
  "(Args msg \<noteq> []
      \<and> cmdSearchArgs e False ''nearby'' (tl (Args msg)) nearbyTypes = (sargs, None)
      \<and> fence (searchScanBaseTokens sargs) \<longrightarrow>
    cmdNearby e msg =
      (Returned NOMessage (Some (goingLiveError (sargs\<lparr>cmd := ''nearby''\<rparr>))),
       if usingLua sargs then [evClose] else []))
   \<and> (Args msg \<noteq> []
      \<and> cmdSearchArgs e False command (tl (Args msg)) withinOrIntersectsTypes = (sargs, None)
      \<and> fence (searchScanBaseTokens sargs) \<longrightarrow>
    cmdWITHINorINTERSECTS e command msg =
      (Returned NOMessage (Some (goingLiveError (sargs\<lparr>cmd := command\<rparr>))),
       if usingLua sargs then [evClose] else []))
   \<and> Error (sargs\<lparr>cmd := command\<rparr>) = goingLive"
  by (simp add: cmdNearby_def cmdWITHINorINTERSECTS_def deferred_def Error_def)

theorem fence_goes_live_witness:
  "cmdNearby env0
       \<lparr>Args = [''NEARBY'', ''fleet'', ''FENCE'', ''POINT'', ''0'', ''0''], OutputType = JSON\<rparr>
     = (Returned NOMessage (Some (goingLiveError
          (zeroLfs\<lparr>searchScanBaseTokens :=
               zeroTokens\<lparr>key := ''fleet'', output_mode := outputObjects, fence := True\<rparr>,
             obj := Some (NewCircle \<lparr>ptX = 0, ptY = 0\<rparr> (- 1) 64), cmd := ''nearby''\<rparr>))), [])
   \<and> cmdWITHINorINTERSECTS env0 ''within''
       \<lparr>Args = [''WITHIN'', ''fleet'', ''FENCE'', ''BOUNDS'', ''0'', ''0'', ''1'', ''1''],
        OutputType = JSON\<rparr>
     = (Returned NOMessage (Some (goingLiveError
          (zeroLfs\<lparr>searchScanBaseTokens :=
               zeroTokens\<lparr>key := ''fleet'', output_mode := outputObjects, fence := True\<rparr>,
             obj := Some (NewRect (mkRect 0 0 1 1)), cmd := ''within''\<rparr>))), [])"
proof -
  let ?n = "zeroLfs\<lparr>searchScanBaseTokens :=
               zeroTokens\<lparr>key := ''fleet'', output_mode := outputObjects, fence := True\<rparr>,
             obj := Some (NewCircle \<lparr>ptX = 0, ptY = 0\<rparr> (- 1) 64)\<rparr>"
  let ?w = "zeroLfs\<lparr>searchScanBaseTokens :=
               zeroTokens\<lparr>key := ''fleet'', output_mode := outputObjects, fence := True\<rparr>,
             obj := Some (NewRect (mkRect 0 0 1 1))\<rparr>"
  have n: "cmdSearchArgs env0 False ''nearby'' [''fleet'', ''FENCE'', ''POINT'', ''0'', ''0'']
             nearbyTypes = (?n, None)"
    by (simp add: resolve_defs server0_defs)
  have w: "cmdSearchArgs env0 False ''within''
             [''fleet'', ''FENCE'', ''BOUNDS'', ''0'', ''0'', ''1'', ''1'']
             withinOrIntersectsTypes = (?w, None)"
    by (simp add: resolve_defs server0_defs)
  have fn: "fence (searchScanBaseTokens ?n)" and fw: "fence (searchScanBaseTokens ?w)"
    by (simp_all add: zeroLfs_def zeroTokens_def)
  have un: "\<not> usingLua ?n" and uw: "\<not> usingLua ?w"
    by (simp_all add: usingLua_def zeroLfs_def zeroTokens_def)
  show ?thesis
    using fence_goes_live [of "\<lparr>Args = [''NEARBY'', ''fleet'', ''FENCE'', ''POINT'', ''0'', ''0''],
              OutputType = JSON\<rparr>" env0 "?n" "''within''"]
      fence_goes_live [of "\<lparr>Args = [''WITHIN'', ''fleet'', ''FENCE'', ''BOUNDS'', ''0'', ''0'',
              ''1'', ''1''], OutputType = JSON\<rparr>" env0 "?w" "''within''"]
      n w fn fw un uw
    by simp
qed

subsection \<open>The radius of a nearby point target\<close>






subsection \<open>The expansion of an mvt rectangle\<close>

text \<open>
  Where no edge is clamped, \<open>expandMvt\<close> moves the minimum edges out by a tenth of the
  height and of the width, and the maximum edges by a tenth of the height and of the
  width as they are after the minimum edges have moved: 0.11 of the original ones.
\<close>

lemma expandMvt_unclamped:
  assumes "MinLatitude \<le> minLat - (maxLat - minLat) * 0.1"
    and "maxLat + (maxLat - minLat) * 0.11 \<le> MaxLatitude"
    and "MinLongitude \<le> minLon - (maxLon - minLon) * 0.1"
    and "maxLon + (maxLon - minLon) * 0.11 \<le> MaxLongitude"
  shows "expandMvt (mkRect minLat minLon maxLat maxLon) =
           mkRect (minLat - (maxLat - minLat) * 0.1) (minLon - (maxLon - minLon) * 0.1)
                  (maxLat + (maxLat - minLat) * 0.11) (maxLon + (maxLon - minLon) * 0.11)"
proof -
  have c1: "\<not> minLat - (maxLat - minLat) * 0.1 < MinLatitude"
    using assms(1) by simp
  have c2: "\<not> maxLat + (maxLat - (minLat - (maxLat - minLat) * 0.1)) * 0.1 > MaxLatitude"
    using assms(2) by (simp add: field_simps)
  have c3: "\<not> minLon - (maxLon - minLon) * 0.1 < MinLongitude"
    using assms(3) by simp
  have c4: "\<not> maxLon + (maxLon - (minLon - (maxLon - minLon) * 0.1)) * 0.1 > MaxLongitude"
    using assms(4) by (simp add: field_simps)
  have "expandMvt (mkRect minLat minLon maxLat maxLon) =
          mkRect (minLat - (maxLat - minLat) * 0.1) (minLon - (maxLon - minLon) * 0.1)
            (maxLat + (maxLat - (minLat - (maxLat - minLat) * 0.1)) * 0.1)
            (maxLon + (maxLon - (minLon - (maxLon - minLon) * 0.1)) * 0.1)"
    unfolding expandMvt_def mkRect_def Let_def
    by (simp only: rect.simps point.simps c1 c2 c3 c4 if_False)
  also have "\<dots> =
          mkRect (minLat - (maxLat - minLat) * 0.1) (minLon - (maxLon - minLon) * 0.1)
            (maxLat + (maxLat - minLat) * 0.11) (maxLon + (maxLon - minLon) * 0.11)"
    by (simp add: mkRect_def field_simps)
  finally show ?thesis .
qed

text \<open>
  C1. The tile 0/0/1 is the rectangle of latitudes 0 to 85.05112878 and longitudes -180
  to 0. As an \<open>mvt\<close> target its maximum longitude becomes 19.8, not the 18 of a symmetric
  expansion by a tenth of the width 180: the minimum longitude has moved to -198 before
  the width is read again, and is clamped to -180 only afterwards.
\<close>

theorem mvt_expansion_asymmetric:
  "parseRectArea env0 ''tile'' [''0'', ''0'', ''1''] =
     ([], Some (NewRect \<lparr>rMin = \<lparr>ptX = - 180, ptY = 0\<rparr>,
                         rMax = \<lparr>ptX = 0, ptY = 85.05112878\<rparr>\<rparr>), 0, 0, 1, None)
   \<and> parseRectArea env0 ''mvt'' [''0'', ''0'', ''1''] =
     ([], Some (NewRect \<lparr>rMin = \<lparr>ptX = - 180, ptY = - 8.505112878\<rparr>,
                         rMax = \<lparr>ptX = 19.8, ptY = 85.05112878\<rparr>\<rparr>), 0, 0, 1, None)"
  by (simp add: resolve_defs server0_defs)

text \<open>The maximum longitude of the \<open>mvt\<close> target of tile 0/0/1 is not the symmetric 18.\<close>

theorem mvt_expansion_asymmetric_witness:
  "fst (snd (parseRectArea env0 ''mvt'' [''0'', ''0'', ''1''])) \<noteq>
     Some (NewRect \<lparr>rMin = \<lparr>ptX = - 180, ptY = - 8.505112878\<rparr>,
                      rMax = \<lparr>ptX = 18, ptY = 85.05112878\<rparr>\<rparr>)"
  using mvt_expansion_asymmetric by simp

subsection \<open>A get target with clip\<close>

text \<open>
  C2. With clip requested, the case \<open>get\<close> assigns the error "cannot clip with get" and
  goes on: the key and the id are looked up, a missing key or id replaces the error,
  and a \<open>clipby\<close> clause after the target clears it. Only when nothing else assigns
  \<open>err\<close> is the clip error the one returned.
\<close>

theorem get_with_clip_continues:
  "snd (cmdSearchArgs env0 False ''intersects''
          [''fleet'', ''CLIP'', ''GET'', ''nokey'', ''truck1''] withinOrIntersectsTypes)
     = Some errKeyNotFound
   \<and> snd (cmdSearchArgs env0 False ''intersects''
          [''fleet'', ''CLIP'', ''GET'', ''fleet'', ''nosuch''] withinOrIntersectsTypes)
     = Some errIDNotFound
   \<and> snd (cmdSearchArgs env0 False ''intersects''
          [''fleet'', ''CLIP'', ''GET'', ''fleet'', ''truck1'', ''CLIPBY'', ''BOUNDS'', ''0'', ''0'',
           ''1'', ''1''] withinOrIntersectsTypes)
     = None
   \<and> snd (cmdSearchArgs env0 False ''intersects''
          [''fleet'', ''CLIP'', ''GET'', ''fleet'', ''truck1''] withinOrIntersectsTypes)
     = Some (errInvalidArgument ''cannot clip with get'')"
  by (simp add: resolve_defs server0_defs)

text \<open>The error of a clipped get on a missing key is not the clip error.\<close>

theorem get_with_clip_continues_witness:
  "snd (cmdSearchArgs env0 False ''intersects''
          [''fleet'', ''CLIP'', ''GET'', ''nokey'', ''truck1''] withinOrIntersectsTypes)
     \<noteq> Some (errInvalidArgument ''cannot clip with get'')"
  using get_with_clip_continues by simp

subsection \<open>The radius of a roam target\<close>

text \<open>
  What the case \<open>roam\<close> does establish when it goes on: the key and the id are not empty,
  and the radius is whatever number the third token parses to.
\<close>

lemma caseRoam_resolved:
  assumes "caseRoam e vs lfs = Continue vs' l er"
  shows "roam_on (roam l) \<and> roam_key (roam l) \<noteq> [] \<and> roam_id (roam l) \<noteq> []
         \<and> ParseFloat e (hd (tl (tl vs))) = Some (roam_meters (roam l))"
  using assms
  by (auto simp: caseRoam_def tokenval_eq Let_def setRoam_def split: if_splits option.splits)

text \<open>
  C4. The case \<open>roam\<close> checks that the radius token parses, not that the radius is
  non-negative (the cases \<open>point\<close> and \<open>circle\<close> check both): the fence command
  \<^verbatim>\<open>NEARBY fleet FENCE ROAM fleet truck1 -5\<close> resolves without error to a roam
  descriptor of radius -5.
\<close>

theorem roam_negative_radius_accepted:
  "cmdSearchArgs env0 False ''nearby''
     [''fleet'', ''FENCE'', ''ROAM'', ''fleet'', ''truck1'', ''-5''] nearbyTypes =
     (zeroLfs\<lparr>searchScanBaseTokens :=
          zeroTokens\<lparr>key := ''fleet'', output_mode := outputObjects, fence := True\<rparr>,
        roam := \<lparr>roam_on = True, roam_key = ''fleet'', roam_id = ''truck1'',
                 roam_pattern = False, roam_meters = - 5, roam_scan = []\<rparr>\<rparr>, None)"
  by (simp add: resolve_defs server0_defs)

text \<open>The roam descriptor is resolved without error and its radius is negative.\<close>

theorem roam_negative_radius_accepted_witness:
  "snd (cmdSearchArgs env0 False ''nearby''
          [''fleet'', ''FENCE'', ''ROAM'', ''fleet'', ''truck1'', ''-5''] nearbyTypes) = None
   \<and> roam_on (roam (fst (cmdSearchArgs env0 False ''nearby''
          [''fleet'', ''FENCE'', ''ROAM'', ''fleet'', ''truck1'', ''-5''] nearbyTypes)))
   \<and> roam_meters (roam (fst (cmdSearchArgs env0 False ''nearby''
          [''fleet'', ''FENCE'', ''ROAM'', ''fleet'', ''truck1'', ''-5''] nearbyTypes))) < 0"
  using roam_negative_radius_accepted by (simp add: zeroLfs_def)

subsection \<open>The count shortcut of cmdSearch\<close>

text \<open>
  C6. \<^verbatim>\<open>SEARCH fleet CURSOR 18446744073709551615 COUNT\<close> on the collection of three
  objects: \<^verbatim>\<open>int(sargs.cursor)\<close> is -1, so the count written is 3 - (-1) = 4, where
  max(3 - 18446744073709551615, 0) is 0. No traversal is called.
\<close>

theorem search_count_cursor_wraps:
  "cmdSearch env0
     \<lparr>Args = [''SEARCH'', ''fleet'', ''CURSOR'', ''18446744073709551615'', ''COUNT''],
      OutputType = RESP\<rparr> =
     (Returned (OtherValue []) None,
      [evNewScanWriter,
       evWriteFoot \<lparr>sw_wr = [], sw_col = Some fleet, sw_output = outputCount, sw_wheres = [],
         sw_globs = [], sw_globEverything = True, sw_count = 4, sw_respOut = OtherValue [],
         sw_state = []\<rparr>])"
  by (simp add: exec_defs resolve_defs env0_def baseTokens0_def ints0_def cols0_def
      newScanWriter0_def fleet_def)

text \<open>The command returns without error, and the count handed to the foot is not 0.\<close>

theorem search_count_cursor_wraps_witness:
  "fst (cmdSearch env0
     \<lparr>Args = [''SEARCH'', ''fleet'', ''CURSOR'', ''18446744073709551615'', ''COUNT''],
      OutputType = RESP\<rparr>) = Returned (OtherValue []) None
   \<and> (\<exists>sw. snd (cmdSearch env0
     \<lparr>Args = [''SEARCH'', ''fleet'', ''CURSOR'', ''18446744073709551615'', ''COUNT''],
      OutputType = RESP\<rparr>) = [evNewScanWriter, evWriteFoot sw] \<and> sw_count sw = 4)"
  using search_count_cursor_wraps by simp

subsection \<open>The tile coordinates of a descriptor\<close>

text \<open>The three tile fields of a descriptor, and the descriptor a piece of code ends with.\<close>

definition tiles :: "liveFenceSwitches \<Rightarrow> int \<times> int \<times> int" where
  "tiles lfs = (tileX (searchScanBaseTokens lfs), tileY (searchScanBaseTokens lfs),
                tileZ (searchScanBaseTokens lfs))"

fun flowLfs :: "flow \<Rightarrow> liveFenceSwitches" where
  "flowLfs (Return l er) = l"
| "flowLfs (Continue vs l er) = l"

fun rectTiles :: "rectResult \<Rightarrow> int \<times> int \<times> int" where
  "rectTiles (nvs, g, x, y, z, er) = (x, y, z)"

lemma casePoint_tiles: "tiles (flowLfs (casePoint e c vs lfs)) = tiles lfs"
  by (simp add: casePoint_def tokenval_eq tiles_def split: option.split)

lemma caseCircle_tiles: "tiles (flowLfs (caseCircle e l vs lfs)) = tiles lfs"
  by (simp add: caseCircle_def tokenval_eq tiles_def split: option.split)

lemma caseObject_tiles: "tiles (flowLfs (caseObject e vs lfs)) = tiles lfs"
  by (simp add: caseObject_def tokenval_eq tiles_def split: option.split prod.split)

lemma caseSector_tiles: "tiles (flowLfs (caseSector e l vs lfs)) = tiles lfs"
  by (simp add: caseSector_def tokenval_eq tiles_def split: option.split prod.split)

lemma caseGet_tiles: "tiles (flowLfs (caseGet e vs lfs)) = tiles lfs"
  by (simp add: caseGet_def tokenval_eq tiles_def Let_def split: option.split)

lemma caseRoam_tiles: "tiles (flowLfs (caseRoam e vs lfs)) = tiles lfs"
  by (simp add: caseRoam_def tokenval_eq tiles_def Let_def setRoam_def split: option.split)

lemma switchType_tiles:
  assumes "ltyp \<notin> {''bounds'', ''hash'', ''tile'', ''mvt'', ''quadkey''}"
  shows "tiles (flowLfs (switchType e c ltyp vs lfs)) = tiles lfs"
  using assms
  by (simp add: switchType_def casePoint_tiles caseCircle_tiles caseObject_tiles
      caseSector_tiles caseGet_tiles caseRoam_tiles)

lemma rectBounds_tiles: "rectTiles (rectBounds e l vs) = (0, 0, 0)"
  by (simp add: rectBounds_def tokenval_eq rectErr_def rectDone_def split: option.split)

lemma rectHash_tiles: "rectTiles (rectHash e l vs) = (0, 0, 0)"
  by (simp add: rectHash_def tokenval_eq rectErr_def rectDone_def Let_def)

lemma rectQuadkey_tiles: "rectTiles (rectQuadkey e l vs) = (0, 0, 0)"
  by (simp add: rectQuadkey_def tokenval_eq rectErr_def rectDone_def split: option.split prod.split)

lemma parseRectArea_tiles:
  assumes "ltyp \<noteq> ''tile''" and "ltyp \<noteq> ''mvt''"
  shows "rectTiles (parseRectArea e ltyp vs) = (0, 0, 0)"
  using assms
  by (simp add: parseRectArea_def rectBounds_tiles rectHash_tiles rectQuadkey_tiles rectErr_def)

lemma caseRect_tiles:
  assumes "ltyp \<noteq> ''tile''" and "ltyp \<noteq> ''mvt''"
  shows "tiles (flowLfs (caseRect e ltyp vs lfs)) = (0, 0, 0)"
proof -
  obtain nvs g x y z er where p: "parseRectArea e ltyp vs = (nvs, g, x, y, z, er)"
    by (cases "parseRectArea e ltyp vs") auto
  with parseRectArea_tiles [OF assms, of e vs] have "(x, y, z) = (0, 0, 0)" by simp
  with p assms show ?thesis
    by (simp add: caseRect_def tiles_def setTokens_def Let_def)
qed

lemma clipStep_tiles:
  assumes "clipStep e vs lfs = Continue vs' lfs' er"
    and "ToLower (hd (tl vs)) \<noteq> ''tile''"
  shows "tiles lfs' = (0, 0, 0)"
proof -
  let ?l = "ToLower (hd (tl vs))"
  obtain nvs g x y z per where p: "parseRectArea e ?l (tl (tl vs)) = (nvs, g, x, y, z, per)"
    by (cases "parseRectArea e ?l (tl (tl vs))") auto
  have "?l = ''bounds'' \<or> ?l = ''hash'' \<or> ?l = ''quadkey''"
    using assms by (auto simp: clipStep_def tokenval_eq Let_def split: if_splits)
  then have "?l \<noteq> ''tile''" and "?l \<noteq> ''mvt''" by auto
  from parseRectArea_tiles [OF this, of e "tl (tl vs)"] p have "(x, y, z) = (0, 0, 0)" by simp
  with assms(1) p show ?thesis
    by (auto simp: clipStep_def tokenval_eq Let_def tiles_def setTokens_def split: if_splits)
qed

lemma clipLoop_tiles:
  assumes "clipLoop e vs lfs er = Continue vs' lfs' er'"
    and "\<forall>v\<in>set vs. ToLower v \<noteq> ''tile''"
  shows "tiles lfs' = (if vs = [] then tiles lfs else (0, 0, 0))"
  using assms
proof (induction e vs lfs er rule: clipLoop.induct)
  case (1 e vs lfs er)
  show ?case
  proof (cases "vs = []")
    case True
    with "1.prems" show ?thesis by (simp add: clipLoop.simps)
  next
    case False
    then have pos: "0 < length vs" by simp
    from "1.prems"(1) pos obtain vs1 l1 er1 where
      st: "clipStep e vs lfs = Continue vs1 l1 er1"
      and lp: "clipLoop e vs1 l1 er1 = Continue vs' lfs' er'"
      by (cases "clipStep e vs lfs") (auto simp: clipLoop.simps [of e vs])
    from clipStep_suffix [OF st] have ne: "tl vs \<noteq> []" and suf: "suffix vs1 (tl (tl vs))"
      by auto
    have sub: "set vs1 \<subseteq> set vs"
      using suf by (meson set_mono_suffix list.set_sel(2) subset_iff False ne)
    have "hd (tl vs) \<in> set vs"
      using ne False by (meson list.set_sel(1) list.set_sel(2))
    with "1.prems"(2) have "ToLower (hd (tl vs)) \<noteq> ''tile''" by blast
    from clipStep_tiles [OF st this] have z: "tiles l1 = (0, 0, 0)" .
    from "1.prems"(2) sub have nt: "\<forall>v\<in>set vs1. ToLower v \<noteq> ''tile''" by blast
    from "1.IH" [OF pos st lp nt] z have "tiles lfs' = (0, 0, 0)"
      by (simp split: if_splits)
    with False show ?thesis by simp
  qed
qed
lemma clipStep_Return_error: "clipStep e vs lfs = Return l er \<Longrightarrow> er \<noteq> None"
  by (auto simp: clipStep_def tokenval_eq Let_def split: if_splits prod.splits)

lemma clipLoop_Return_error: "clipLoop e vs lfs er = Return l er' \<Longrightarrow> er' \<noteq> None"
proof (induction e vs lfs er rule: clipLoop.induct)
  case (1 e vs lfs er)
  show ?case
  proof (cases "clipStep e vs lfs")
    case (Return l1 er1)
    with "1.prems" have "0 < length vs" and "er' = er1"
      by (auto simp: clipLoop.simps [of e vs] split: if_splits)
    with Return show ?thesis by (auto dest: clipStep_Return_error)
  next
    case (Continue vs1 l1 er1)
    with "1.prems" have pos: "0 < length vs" and lp: "clipLoop e vs1 l1 er1 = Return l er'"
      by (auto simp: clipLoop.simps [of e vs] split: if_splits)
    from "1.IH" [OF pos Continue lp] show ?thesis .
  qed
qed

lemma afterSwitch_tiles:
  assumes "snd (afterSwitch e (Continue vs4 l4 er4)) = None"
    and "\<forall>v\<in>set vs4. ToLower v \<noteq> ''tile''"
  shows "tiles (fst (afterSwitch e (Continue vs4 l4 er4))) =
           (if vs4 = [] then tiles l4 else (0, 0, 0))"
proof (cases "clipLoop e vs4 l4 er4")
  case (Return l er)
  then have "er \<noteq> None" by (rule clipLoop_Return_error)
  with Return assms(1) show ?thesis by (simp add: afterSwitch_def)
next
  case (Continue vs5 l5 er5)
  from clipLoop_tiles [OF Continue assms(2)]
  have "tiles l5 = (if vs4 = [] then tiles l4 else (0, 0, 0))" .
  with Continue show ?thesis
    by (auto simp: afterSwitch_def tiles_def split: prod.split if_splits)
qed

text \<open>
  The model of a server whose base-token parser starts the tile fields at -1, to run
  the resolution with the sentinel in place.
\<close>

definition envMinus :: env where
  "envMinus = env0\<lparr>parseSearchScanBaseTokens :=
     (\<lambda>command t vs. baseTokens0 command (t\<lparr>tileX := - 1, tileY := - 1, tileZ := - 1\<rparr>) vs)\<rparr>"

text \<open>
  C9, as the code has it. \<open>search.go\<close> never writes -1: \<open>parseRectArea\<close> returns the zero
  tile coordinates for \<open>bounds\<close>, \<open>hash\<close> and \<open>quadkey\<close>, and both the target and every
  \<open>clipby\<close> clause store what it returns. For a descriptor resolved without error from a
  target \<open>typ1\<close> that is neither \<open>tile\<close> nor \<open>mvt\<close>, with \<open>vs4\<close> the tokens after the target
  and none of them the word \<open>tile\<close>: the tile fields are 0 when the target is \<open>bounds\<close>,
  \<open>hash\<close> or \<open>quadkey\<close> or when a \<open>clipby\<close> clause follows, and otherwise the values the
  base-token parser left in \<open>t\<close>.
\<close>

theorem tile_fields_resolved:
  assumes "parseSearchScanBaseTokens e command
             (if fromFenceCmd then zeroTokens\<lparr>fence := True\<rparr> else zeroTokens) vs0
           = (tok # rest, t, None)"
    and "implicitBounds e command tok rest (zeroLfs\<lparr>searchScanBaseTokens := t\<rparr>)
           = (vs, typ1, lfs1)"
    and "switchType e command (ToLower typ1) vs lfs1 = Continue vs4 l4 er4"
    and "\<forall>v\<in>set vs4. ToLower v \<noteq> ''tile''"
    and "snd (cmdSearchArgs e fromFenceCmd command vs0 types) = None"
    and "ToLower typ1 \<noteq> ''tile''" and "ToLower typ1 \<noteq> ''mvt''"
  shows "tiles (fst (cmdSearchArgs e fromFenceCmd command vs0 types)) =
           (if ToLower typ1 \<in> {''bounds'', ''hash'', ''quadkey''} \<or> vs4 \<noteq> []
            then (0, 0, 0) else (tileX t, tileY t, tileZ t))"
proof -
  have "cmdSearchArgs e fromFenceCmd command vs0 types = afterSwitch e (Continue vs4 l4 er4)"
    using assms(1,2,3,5) by (auto simp: cmdSearchArgs_def Let_def split: if_splits)
  with assms(5) afterSwitch_tiles [OF _ assms(4), of e l4 er4]
  have a: "tiles (fst (cmdSearchArgs e fromFenceCmd command vs0 types)) =
             (if vs4 = [] then tiles l4 else (0, 0, 0))"
    by simp
  have l1: "tiles lfs1 = (tileX t, tileY t, tileZ t)"
    using assms(2) by (auto simp: implicitBounds_def tiles_def setTokens_def split: if_splits)
  have l4: "tiles l4 = (if ToLower typ1 \<in> {''bounds'', ''hash'', ''quadkey''}
                        then (0, 0, 0) else (tileX t, tileY t, tileZ t))"
  proof (cases "ToLower typ1 \<in> {''bounds'', ''hash'', ''quadkey''}")
    case True
    then have "switchType e command (ToLower typ1) vs lfs1 = caseRect e (ToLower typ1) vs lfs1"
      by (auto simp: switchType_def)
    with assms(3) caseRect_tiles [OF assms(6,7), of e vs lfs1] True show ?thesis by simp
  next
    case False
    with assms(6,7) have "ToLower typ1 \<notin> {''bounds'', ''hash'', ''tile'', ''mvt'', ''quadkey''}"
      by auto
    from switchType_tiles [OF this, of e command vs lfs1] assms(3) l1 False show ?thesis
      by simp
  qed
  from a l4 show ?thesis by auto
qed

theorem tile_fields_resolved_witness:
  "tiles (fst (cmdSearchArgs envMinus False ''within''
       [''fleet'', ''BOUNDS'', ''0'', ''0'', ''1'', ''1''] withinOrIntersectsTypes)) = (0, 0, 0)
   \<and> tiles (fst (cmdSearchArgs envMinus False ''within''
       [''fleet'', ''POINT'', ''0'', ''0'', ''CLIPBY'', ''HASH'', ''s''] withinOrIntersectsTypes))
       = (0, 0, 0)
   \<and> tiles (fst (cmdSearchArgs envMinus False ''within''
       [''fleet'', ''POINT'', ''0'', ''0''] withinOrIntersectsTypes)) = (- 1, - 1, - 1)"
proof -
  let ?t = "zeroTokens\<lparr>key := ''fleet'', output_mode := outputObjects,
              tileX := - 1, tileY := - 1, tileZ := - 1\<rparr>"
  let ?l = "zeroLfs\<lparr>searchScanBaseTokens := ?t\<rparr>"
  have b: "parseSearchScanBaseTokens envMinus ''within''
             (if False then zeroTokens\<lparr>fence := True\<rparr> else zeroTokens) (''fleet'' # tok # rest)
           = (tok # rest, ?t, None)"
    if "tok = ''BOUNDS'' \<or> tok = ''POINT''" for tok rest
    using that by (auto simp: envMinus_def server0_defs ToLower_def toLowerChar_def zeroTokens_def)
  have h: "implicitBounds envMinus ''within'' tok rest ?l = (rest, tok, ?l)" for tok rest
    by (simp add: implicitBounds_def zeroLfs_def zeroTokens_def)
  have s1: "switchType envMinus ''within'' (ToLower ''BOUNDS'') [''0'', ''0'', ''1'', ''1''] ?l
      = Continue [] (?l\<lparr>searchScanBaseTokens := ?t\<lparr>tileX := 0, tileY := 0, tileZ := 0\<rparr>,
                       obj := Some (NewRect (mkRect 0 0 1 1))\<rparr>) None"
    by (simp add: envMinus_def resolve_defs server0_defs)
  have s2: "switchType envMinus ''within'' (ToLower ''POINT'')
               [''0'', ''0'', ''CLIPBY'', ''HASH'', ''s''] ?l
      = Continue [''CLIPBY'', ''HASH'', ''s'']
          (?l\<lparr>obj := Some (NewPoint \<lparr>ptX = 0, ptY = 0\<rparr>)\<rparr>) None"
    by (simp add: envMinus_def resolve_defs server0_defs)
  have s3: "switchType envMinus ''within'' (ToLower ''POINT'') [''0'', ''0''] ?l
      = Continue [] (?l\<lparr>obj := Some (NewPoint \<lparr>ptX = 0, ptY = 0\<rparr>)\<rparr>) None"
    by (simp add: envMinus_def resolve_defs server0_defs)
  have o1: "snd (cmdSearchArgs envMinus False ''within''
       [''fleet'', ''BOUNDS'', ''0'', ''0'', ''1'', ''1''] withinOrIntersectsTypes) = None"
    and o2: "snd (cmdSearchArgs envMinus False ''within''
       [''fleet'', ''POINT'', ''0'', ''0'', ''CLIPBY'', ''HASH'', ''s''] withinOrIntersectsTypes) = None"
    and o3: "snd (cmdSearchArgs envMinus False ''within''
       [''fleet'', ''POINT'', ''0'', ''0''] withinOrIntersectsTypes) = None"
    by (simp_all add: envMinus_def resolve_defs server0_defs)
  have k: "ToLower ''BOUNDS'' = ''bounds''" "ToLower ''POINT'' = ''point''"
    "ToLower ''CLIPBY'' = ''clipby''" "ToLower ''HASH'' = ''hash''" "ToLower ''s'' = ''s''"
    by (simp_all add: ToLower_def toLowerChar_def)
  have 1: "tiles (fst (cmdSearchArgs envMinus False ''within''
       [''fleet'', ''BOUNDS'', ''0'', ''0'', ''1'', ''1''] withinOrIntersectsTypes)) = (0, 0, 0)"
    using tile_fields_resolved [OF b h s1 _ o1] by (simp add: k)
  have 2: "tiles (fst (cmdSearchArgs envMinus False ''within''
       [''fleet'', ''POINT'', ''0'', ''0'', ''CLIPBY'', ''HASH'', ''s''] withinOrIntersectsTypes))
       = (0, 0, 0)"
    using tile_fields_resolved [OF b h s2 _ o2] by (simp add: k)
  have 3: "tiles (fst (cmdSearchArgs envMinus False ''within''
       [''fleet'', ''POINT'', ''0'', ''0''] withinOrIntersectsTypes)) = (- 1, - 1, - 1)"
    using tile_fields_resolved [OF b h s3 _ o3] by (simp add: k zeroTokens_def)
  from 1 2 3 show ?thesis by simp
qed

text \<open>
  The claim as stated fails on a \<open>bounds\<close> target: the fields are 0, not -1, on the
  concrete server and also where the base-token parser had set them to -1.
\<close>

theorem tile_sentinel_counterexample:
  "snd (cmdSearchArgs env0 False ''within''
       [''fleet'', ''BOUNDS'', ''0'', ''0'', ''1'', ''1''] withinOrIntersectsTypes) = None
   \<and> tiles (fst (cmdSearchArgs env0 False ''within''
       [''fleet'', ''BOUNDS'', ''0'', ''0'', ''1'', ''1''] withinOrIntersectsTypes)) = (0, 0, 0)
   \<and> tileX (searchScanBaseTokens (fst (cmdSearchArgs env0 False ''within''
       [''fleet'', ''BOUNDS'', ''0'', ''0'', ''1'', ''1''] withinOrIntersectsTypes))) \<noteq> - 1
   \<and> snd (cmdSearchArgs envMinus False ''within''
       [''fleet'', ''BOUNDS'', ''0'', ''0'', ''1'', ''1''] withinOrIntersectsTypes) = None
   \<and> tiles (fst (cmdSearchArgs envMinus False ''within''
       [''fleet'', ''BOUNDS'', ''0'', ''0'', ''1'', ''1''] withinOrIntersectsTypes)) = (0, 0, 0)"
  by (simp add: envMinus_def tiles_def resolve_defs server0_defs)

subsection \<open>SPARSE with a nearby target\<close>

lemma pushStep_log:
  "snd (snd (snd (pushStep e p (sw, ie, lg)))) = lg @ [evPushObject p]"
  by (simp add: pushStep_def split: prod.split)

lemma sparseIter_log:
  "\<exists>p. snd (snd (snd (sparseIter e s ob (sw, ie, lg)))) = lg @ [evPushObject p]"
  by (simp add: sparseIter_def iterStep_def pushStep_log Let_def)

lemma traverse_sparseIter_log:
  "\<exists>ps. snd (snd (traverse (sparseIter e s) cs (sw, ie, lg))) = lg @ map evPushObject ps"
proof (induction cs arbitrary: sw ie lg)
  case Nil
  have "lg = lg @ map evPushObject []" by simp
  then show ?case by (simp del: append_Nil2)
next
  case (Cons ob cs)
  obtain k sw' ie' lg' where st: "sparseIter e s ob (sw, ie, lg) = (k, sw', ie', lg')"
    by (cases "sparseIter e s ob (sw, ie, lg)") auto
  from sparseIter_log [of e s ob sw ie lg] st obtain p where lg': "lg' = lg @ [evPushObject p]"
    by auto
  show ?case
  proof (cases k)
    case True
    from Cons.IH [of sw' ie' lg'] obtain ps where
      "snd (snd (traverse (sparseIter e s) cs (sw', ie', lg'))) = lg' @ map evPushObject ps"
      by blast
    with st True lg' have
      "snd (snd (traverse (sparseIter e s) (ob # cs) (sw, ie, lg))) = lg @ map evPushObject (p # ps)"
      by simp
    then show ?thesis by blast
  next
    case False
    with st lg' have
      "snd (snd (traverse (sparseIter e s) (ob # cs) (sw, ie, lg))) = lg @ map evPushObject [p]"
      by simp
    then show ?thesis by blast
  qed
qed

lemma finish_log:
  "snd (finish e msg (sw, ie, lg)) = lg \<or> snd (finish e msg (sw, ie, lg)) = lg @ [evWriteFoot sw]"
  by (simp add: finish_def Let_def split: option.split prod.split)

lemma deferred_log:
  "snd (deferred s r) = snd r \<or> snd (deferred s r) = snd r @ [evClose]"
  by (simp add: deferred_def)

lemma sparse_run_log:
  fixes st :: travState
  assumes "st = traverse (sparseIter e s) cs (sw, None, [evNewScanWriter, evIntersects])"
  shows "evIntersects \<in> set (snd (deferred s0 (finish e msg st)))
         \<and> evNearby \<notin> set (snd (deferred s0 (finish e msg st)))"
proof -
  obtain sw' ie' lg' where st: "st = (sw', ie', lg')" by (cases st) auto
  from assms st
  have tr: "traverse (sparseIter e s) cs (sw, None, [evNewScanWriter, evIntersects]) = (sw', ie', lg')"
    by simp
  from traverse_sparseIter_log [of e s cs sw None "[evNewScanWriter, evIntersects]"]
  obtain ps where
    "snd (snd (traverse (sparseIter e s) cs (sw, None, [evNewScanWriter, evIntersects])))
       = [evNewScanWriter, evIntersects] @ map evPushObject ps"
    by blast
  with tr have lg': "lg' = [evNewScanWriter, evIntersects] @ map evPushObject ps"
    by simp
  then have a: "evIntersects \<in> set lg'" and b: "evNearby \<notin> set lg'" by auto
  from finish_log [of e msg sw' ie' lg'] a b
  have "evIntersects \<in> set (snd (finish e msg st)) \<and> evNearby \<notin> set (snd (finish e msg st))"
    unfolding st by auto
  with deferred_log [of s0 "finish e msg st"] show ?thesis by auto
qed

text \<open>
  C5, as the code has it. The test for SPARSE sits inside \<^verbatim>\<open>if sw.col != nil\<close>, after the
  fence check and the creation of the scan writer. For a nearby command that is resolved
  without error, is no fence, asks for SPARSE, has a circle of radius r as its target
  and whose scan writer is bound to a collection: with r < 0 the command returns the
  error "cannot use SPARSE without a point distance" and has called no traversal; with
  r \<ge> 0 it runs the Intersects traversal with the SPARSE iterator, and never the Nearby
  traversal.
\<close>

theorem nearby_sparse:
  assumes "Args msg \<noteq> []"
    and "cmdSearchArgs e False ''nearby'' (tl (Args msg)) nearbyTypes = (sargs, None)"
    and "\<not> fence (searchScanBaseTokens sargs)"
    and "0 < sparse (searchScanBaseTokens sargs)"
    and "obj sargs = Some (NewCircle c r n)"
    and "callNewScanWriter e msg (sargs\<lparr>cmd := ''nearby''\<rparr>) False = (sw, None)"
    and "sw_col sw = Some cl"
  shows "(r < 0 \<longrightarrow>
            cmdNearby e msg =
              (Returned NOMessage
                 (Some (errorString ''cannot use SPARSE without a point distance'')),
               [evNewScanWriter] @ (if usingLua sargs then [evClose] else [])))
       \<and> (0 \<le> r \<longrightarrow>
            cmdNearby e msg =
              deferred sargs (finish e msg
                (traverse (sparseIter e (sargs\<lparr>cmd := ''nearby''\<rparr>))
                   (Intersects cl (obj sargs) (sparse (searchScanBaseTokens sargs)))
                   (writeOk msg sw, None, [evNewScanWriter, evIntersects])))
            \<and> evIntersects \<in> set (snd (cmdNearby e msg))
            \<and> evNearby \<notin> set (snd (cmdNearby e msg)))"
proof (intro conjI impI)
  have col: "sw_col (writeOk msg sw) = Some cl"
    using assms(7) by (simp add: writeOk_def)
  {
    assume "r < 0"
    then show "cmdNearby e msg =
              (Returned NOMessage
                 (Some (errorString ''cannot use SPARSE without a point distance'')),
               [evNewScanWriter] @ (if usingLua sargs then [evClose] else []))"
      using assms col by (simp add: cmdNearby_def deferred_def)
  }
  {
    assume "0 \<le> r"
    then show run: "cmdNearby e msg =
              deferred sargs (finish e msg
                (traverse (sparseIter e (sargs\<lparr>cmd := ''nearby''\<rparr>))
                   (Intersects cl (obj sargs) (sparse (searchScanBaseTokens sargs)))
                   (writeOk msg sw, None, [evNewScanWriter, evIntersects])))"
      using assms col by (simp add: cmdNearby_def)
    from sparse_run_log [OF refl, of sargs e msg "sargs\<lparr>cmd := ''nearby''\<rparr>"
        "Intersects cl (obj sargs) (sparse (searchScanBaseTokens sargs))" "writeOk msg sw"]
    show "evIntersects \<in> set (snd (cmdNearby e msg))"
      and "evNearby \<notin> set (snd (cmdNearby e msg))"
      unfolding run by simp_all
  }
qed

theorem nearby_sparse_witness:
  "cmdNearby env0
       \<lparr>Args = [''NEARBY'', ''fleet'', ''SPARSE'', ''2'', ''POINT'', ''0'', ''0''],
        OutputType = RESP\<rparr>
     = (Returned NOMessage (Some (errorString ''cannot use SPARSE without a point distance'')),
        [evNewScanWriter])
   \<and> evIntersects \<in> set (snd (cmdNearby env0
       \<lparr>Args = [''NEARBY'', ''fleet'', ''SPARSE'', ''2'', ''POINT'', ''0'', ''0'', ''500''],
        OutputType = RESP\<rparr>))
   \<and> evNearby \<notin> set (snd (cmdNearby env0
       \<lparr>Args = [''NEARBY'', ''fleet'', ''SPARSE'', ''2'', ''POINT'', ''0'', ''0'', ''500''],
        OutputType = RESP\<rparr>))"
proof -
  let ?t = "zeroTokens\<lparr>key := ''fleet'', output_mode := outputObjects, sparse := 2\<rparr>"
  let ?a = "zeroLfs\<lparr>searchScanBaseTokens := ?t,
              obj := Some (NewCircle \<lparr>ptX = 0, ptY = 0\<rparr> (- 1) 64)\<rparr>"
  let ?b = "zeroLfs\<lparr>searchScanBaseTokens := ?t,
              obj := Some (NewCircle \<lparr>ptX = 0, ptY = 0\<rparr> 500 64)\<rparr>"
  let ?ma = "\<lparr>Args = [''NEARBY'', ''fleet'', ''SPARSE'', ''2'', ''POINT'', ''0'', ''0''],
              OutputType = RESP\<rparr>"
  let ?mb = "\<lparr>Args = [''NEARBY'', ''fleet'', ''SPARSE'', ''2'', ''POINT'', ''0'', ''0'', ''500''],
              OutputType = RESP\<rparr>"
  let ?sw = "\<lparr>sw_wr = [], sw_col = Some fleet, sw_output = outputObjects, sw_wheres = [],
         sw_globs = [], sw_globEverything = True, sw_count = 0, sw_respOut = OtherValue [],
         sw_state = []\<rparr>"
  have ra: "cmdSearchArgs env0 False ''nearby'' (tl (Args ?ma)) nearbyTypes = (?a, None)"
    by (simp add: resolve_defs server0_defs)
  have rb: "cmdSearchArgs env0 False ''nearby'' (tl (Args ?mb)) nearbyTypes = (?b, None)"
    by (simp add: resolve_defs server0_defs)
  have na: "callNewScanWriter env0 ?ma (?a\<lparr>cmd := ''nearby''\<rparr>) False = (?sw, None)"
    and nb: "callNewScanWriter env0 ?mb (?b\<lparr>cmd := ''nearby''\<rparr>) False = (?sw, None)"
    by (simp_all add: callNewScanWriter_def env0_def newScanWriter0_def cols0_def
        zeroLfs_def zeroTokens_def)
  have f: "\<not> fence (searchScanBaseTokens ?a)" "\<not> fence (searchScanBaseTokens ?b)"
    and s: "0 < sparse (searchScanBaseTokens ?a)" "0 < sparse (searchScanBaseTokens ?b)"
    and u: "\<not> usingLua ?a"
    by (simp_all add: zeroLfs_def zeroTokens_def usingLua_def)
  have oa: "obj ?a = Some (NewCircle \<lparr>ptX = 0, ptY = 0\<rparr> (- 1) 64)"
    and ob: "obj ?b = Some (NewCircle \<lparr>ptX = 0, ptY = 0\<rparr> 500 64)"
    by (simp_all add: zeroLfs_def)
  have c: "sw_col ?sw = Some fleet" by simp
  have ne: "Args ?ma \<noteq> []" "Args ?mb \<noteq> []" by simp_all
  from nearby_sparse [OF ne(1) ra f(1) s(1) oa na c] u
  have 1: "cmdNearby env0 ?ma =
      (Returned NOMessage (Some (errorString ''cannot use SPARSE without a point distance'')),
       [evNewScanWriter])"
    by simp
  have "(0::real) \<le> 500" by simp
  with nearby_sparse [OF ne(2) rb f(2) s(2) ob nb c]
  have 2: "evIntersects \<in> set (snd (cmdNearby env0 ?mb))
      \<and> evNearby \<notin> set (snd (cmdNearby env0 ?mb))"
    by blast
  from 1 2 show ?thesis by simp
qed

text \<open>
  The claim as stated fails where the key names no collection: the command asks for
  SPARSE, its target has the unbounded radius -1, and it returns without error (and
  without any traversal).
\<close>

theorem nearby_sparse_counterexample:
  "cmdSearchArgs env0 False ''nearby''
       [''nokey'', ''SPARSE'', ''2'', ''POINT'', ''0'', ''0''] nearbyTypes
     = (zeroLfs\<lparr>searchScanBaseTokens :=
            zeroTokens\<lparr>key := ''nokey'', output_mode := outputObjects, sparse := 2\<rparr>,
          obj := Some (NewCircle \<lparr>ptX = 0, ptY = 0\<rparr> (- 1) 64)\<rparr>, None)
   \<and> cmdNearby env0
       \<lparr>Args = [''NEARBY'', ''nokey'', ''SPARSE'', ''2'', ''POINT'', ''0'', ''0''],
        OutputType = RESP\<rparr>
     = (Returned (OtherValue []) None,
        [evNewScanWriter,
         evWriteFoot \<lparr>sw_wr = [], sw_col = None, sw_output = outputObjects, sw_wheres = [],
           sw_globs = [], sw_globEverything = True, sw_count = 0, sw_respOut = OtherValue [],
           sw_state = []\<rparr>])"
  by (simp add: exec_defs resolve_defs server0_defs)

subsection \<open>Further properties of the count shortcut and of the expansion\<close>

lemma sint_eq_uint_small:
  fixes w :: "64 word"
  assumes "uint w < 2 ^ 63"
  shows "sint w = uint w"
proof -
  have "sint w = signed_take_bit 63 (uint w)" by (simp add: sint_uint)
  also have "\<dots> = uint w"
    using assms by (intro signed_take_bit_int_eq_self) (auto intro: order_trans [of _ 0])
  finally show ?thesis .
qed

lemma uint_eq_sint_nonneg:
  fixes w :: "64 word"
  assumes "0 \<le> sint w"
  shows "uint w = sint w"
proof -
  have "sint w < 2 ^ 64" using sint_lt [of w] by simp
  with assms have "take_bit 64 (sint w) = sint w" by (simp add: take_bit_int_eq_self)
  then show ?thesis by (simp add: uint_sint)
qed

lemma countShortcut_in_range:
  assumes "0 \<le> sint cnt" and "uint cur < 2 ^ 63"
  shows "uint (countShortcut cnt cur) = max (sint cnt - uint cur) 0"
proof -
  have c: "sint cur = uint cur" using assms(2) by (rule sint_eq_uint_small)
  have t: "sint cnt < 2 ^ 63" using sint_lt [of cnt] by simp
  have "sint (cnt - cur) = signed_take_bit 63 (sint cnt - sint cur)"
    by (simp add: sint_word_ariths)
  also have "\<dots> = sint cnt - sint cur"
  proof (rule signed_take_bit_int_eq_self)
    show "- (2 ^ 63) \<le> sint cnt - sint cur" using assms c by linarith
    show "sint cnt - sint cur < 2 ^ 63" using t c uint_ge_0 [of cur] by linarith
  qed
  finally have d: "sint (cnt - cur) = sint cnt - uint cur" using c by simp
  show ?thesis
  proof (cases "sint (cnt - cur) < 0")
    case True
    with d show ?thesis by (simp add: countShortcut_def)
  next
    case False
    then have "uint (cnt - cur) = sint (cnt - cur)" by (intro uint_eq_sint_nonneg) simp
    with False d show ?thesis by (simp add: countShortcut_def)
  qed
qed

text \<open>
  The count shortcut of \<open>cmdSearch\<close> beside C6: with a collection, the output mode count,
  no \<^verbatim>\<open>wheres\<close> and \<^verbatim>\<open>globEverything\<close>, the command stores \<open>countShortcut\<close> of the
  collection's count and the cursor and calls no traversal; the stored count is
  max(count - cursor, 0) as long as the cursor is below 2^63 (and the count is not
  negative).
\<close>

theorem search_count_shortcut:
  assumes "Args msg \<noteq> []"
    and "cmdSeachValuesArgs e (tl (Args msg)) = (sargs, None)"
    and "callNewScanWriter e msg sargs True = (sw, None)"
    and "sw_col sw = Some cl"
    and "sw_output sw = outputCount" and "sw_wheres sw = []" and "sw_globEverything sw"
  shows "cmdSearch e msg =
           deferred sargs (finish e msg
             ((writeOk msg sw)\<lparr>sw_count :=
                 countShortcut (Count cl) (cursor (searchScanBaseTokens sargs))\<rparr>,
              None, [evNewScanWriter]))
       \<and> evSearchValues \<notin> set (snd (cmdSearch e msg))
       \<and> evSearchValuesRange \<notin> set (snd (cmdSearch e msg))
       \<and> (0 \<le> sint (Count cl) \<and> uint (cursor (searchScanBaseTokens sargs)) < 2 ^ 63 \<longrightarrow>
            uint (countShortcut (Count cl) (cursor (searchScanBaseTokens sargs))) =
              max (sint (Count cl) - uint (cursor (searchScanBaseTokens sargs))) 0)"
proof -
  let ?sw = "(writeOk msg sw)\<lparr>sw_count :=
                 countShortcut (Count cl) (cursor (searchScanBaseTokens sargs))\<rparr>"
  have w: "sw_col (writeOk msg sw) = Some cl" "sw_output (writeOk msg sw) = outputCount"
    "sw_wheres (writeOk msg sw) = []" "sw_globEverything (writeOk msg sw)"
    using assms(4-7) by (simp_all add: writeOk_def)
  have run: "cmdSearch e msg = deferred sargs (finish e msg (?sw, None, [evNewScanWriter]))"
    using assms(1-3) w by (simp add: cmdSearch_def Let_def)
  from finish_log [of e msg ?sw None "[evNewScanWriter]"]
    deferred_log [of sargs "finish e msg (?sw, None, [evNewScanWriter])"]
  have "evSearchValues \<notin> set (snd (cmdSearch e msg))
      \<and> evSearchValuesRange \<notin> set (snd (cmdSearch e msg))"
    unfolding run by auto
  with run countShortcut_in_range [of "Count cl" "cursor (searchScanBaseTokens sargs)"]
  show ?thesis by blast
qed

theorem search_count_shortcut_witness:
  "cmdSearch env0 \<lparr>Args = [''SEARCH'', ''fleet'', ''CURSOR'', ''2'', ''COUNT''], OutputType = RESP\<rparr>
     = (Returned (OtherValue []) None,
        [evNewScanWriter,
         evWriteFoot \<lparr>sw_wr = [], sw_col = Some fleet, sw_output = outputCount, sw_wheres = [],
           sw_globs = [], sw_globEverything = True, sw_count = 1, sw_respOut = OtherValue [],
           sw_state = []\<rparr>])"
proof -
  let ?m = "\<lparr>Args = [''SEARCH'', ''fleet'', ''CURSOR'', ''2'', ''COUNT''], OutputType = RESP\<rparr>"
  let ?s = "zeroLfs\<lparr>searchScanBaseTokens :=
              zeroTokens\<lparr>key := ''fleet'', output_mode := outputCount, cursor := 2\<rparr>\<rparr>"
  let ?sw = "\<lparr>sw_wr = [], sw_col = Some fleet, sw_output = outputCount, sw_wheres = [],
           sw_globs = [], sw_globEverything = True, sw_count = 0, sw_respOut = OtherValue [],
           sw_state = []\<rparr>"
  have a: "cmdSeachValuesArgs env0 (tl (Args ?m)) = (?s, None)"
    by (simp add: cmdSeachValuesArgs_def env0_def baseTokens0_def ints0_def ToLower_def
        toLowerChar_def zeroLfs_def zeroTokens_def)
  have n: "callNewScanWriter env0 ?m ?s True = (?sw, None)"
    by (simp add: callNewScanWriter_def env0_def newScanWriter0_def cols0_def zeroLfs_def
        zeroTokens_def)
  have u: "\<not> usingLua ?s" by (simp add: usingLua_def zeroLfs_def zeroTokens_def)
  have c: "cursor (searchScanBaseTokens ?s) = 2" by (simp add: zeroLfs_def zeroTokens_def)
  from search_count_shortcut [of ?m env0 ?s ?sw fleet, OF _ a n]
  have "cmdSearch env0 ?m =
          deferred ?s (finish env0 ?m
             ((writeOk ?m ?sw)\<lparr>sw_count := countShortcut (Count fleet) 2\<rparr>,
              None, [evNewScanWriter]))"
    by (simp add: c)
  then show ?thesis
    by (simp add: deferred_def u finish_def writeOk_def countShortcut_def fleet_def env0_def)
qed

text \<open>
  The expansion of the \<open>mvt\<close> rectangle beside C1, at a rectangle that no clamp touches.
\<close>

theorem expandMvt_unclamped_witness:
  "expandMvt (mkRect 0 0 10 10) = mkRect (- 1) (- 1) 11.1 11.1"
proof -
  have "expandMvt (mkRect 0 0 10 10) =
          mkRect (0 - (10 - 0) * 0.1) (0 - (10 - 0) * 0.1)
                 (10 + (10 - 0) * 0.11) (10 + (10 - 0) * 0.11)"
    by (rule expandMvt_unclamped)
      (simp_all add: MinLatitude_def MaxLatitude_def MinLongitude_def MaxLongitude_def)
  then show ?thesis by (simp add: mkRect_def)
qed

end
